theory Spec2Isabelle
  imports Complex_Main "HOL-Library.AList"
begin

section \<open>JavaScript primitives used by the dashboard\<close>

text \<open>
  The dashboard is one JavaScript module. Its two data-shaping functions,
  \<^verbatim>\<open>generateDemoData\<close> and \<^verbatim>\<open>buildLiveMonths\<close>, and the start-up fetch of
  \<^verbatim>\<open>pricing_data.json\<close> are embedded below.

  JavaScript numbers are IEEE doubles. The embedding reads them as real numbers:
  \<^verbatim>\<open>Math.round\<close> is \<^const>\<open>round\<close> (both are \<open>\<lfloor>x + 1/2\<rfloor>\<close>), \<^verbatim>\<open>Math.floor\<close> is the
  floor, \<^verbatim>\<open>Math.sin\<close> is \<^const>\<open>sin\<close>, and products and quotients are exact. The
  values that are not finite numbers and that the code can produce (a division by a
  zero duration, the \<^verbatim>\<open>Infinity\<close> the running minimum starts from) are constructors
  of \<open>jsnum\<close>. Strings are \<^typ>\<open>string\<close>, so a character is one code unit below 256,
  which covers the names the module itself declares.

  The generator is embedded a second time with the rounding of the doubles and
  \<^verbatim>\<open>Math.sin\<close> as arguments, and the normalizer a second time on records whose fields
  hold any JSON value; each comes with the lemma that it is the first embedding where
  the two meet.
\<close>

datatype jsnum = Fin int | PosInf | NegInf | NaN

text \<open>\<^verbatim>\<open>p < ch\<close> for a finite integer \<open>p\<close> and a running minimum \<open>ch\<close>.\<close>

fun js_lt :: "int \<Rightarrow> jsnum \<Rightarrow> bool" where
  "js_lt p (Fin c) = (p < c)"
| "js_lt p PosInf = True"
| "js_lt p NegInf = False"
| "js_lt p NaN = False"

text \<open>\<^verbatim>\<open>v > 0\<close> for a field that may hold \<^verbatim>\<open>Infinity\<close>.\<close>

fun js_gt0 :: "jsnum \<Rightarrow> bool" where
  "js_gt0 (Fin c) = (0 < c)"
| "js_gt0 PosInf = True"
| "js_gt0 NegInf = False"
| "js_gt0 NaN = False"

text \<open>
  \<^verbatim>\<open>Math.round(x / d)\<close> for a number \<open>x\<close> and a duration \<open>d\<close>. In HOL \<open>x / 0 = 0\<close>; in
  JavaScript the quotient by zero is \<^verbatim>\<open>Infinity\<close>, \<^verbatim>\<open>-Infinity\<close> or \<^verbatim>\<open>NaN\<close>, and
  \<^verbatim>\<open>Math.round\<close> returns it unchanged.
\<close>

definition Math_round_div :: "real \<Rightarrow> nat \<Rightarrow> jsnum" where
  "Math_round_div x d =
     (if d = 0 then (if 0 < x then PosInf else if x < 0 then NegInf else NaN)
      else Fin (round (x / real d)))"

text \<open>The decimal string of a non-negative integer, as string concatenation produces it.\<close>

fun show_nat :: "nat \<Rightarrow> string" where
  "show_nat n =
     (if n < 10 then [''0123456789'' ! n]
      else show_nat (n div 10) @ [''0123456789'' ! (n mod 10)])"

declare show_nat.simps [simp del]

text \<open>\<^verbatim>\<open>Array.prototype.indexOf\<close>: the first position of \<open>x\<close>, or \<open>-1\<close>.\<close>

fun indexOf :: "'a list \<Rightarrow> 'a \<Rightarrow> int" where
  "indexOf [] x = - 1"
| "indexOf (y # ys) x =
     (if y = x then 0 else (let r = indexOf ys x in if r < 0 then - 1 else r + 1))"

section \<open>Constants of the module\<close>

definition MONTHS :: "string list" where
  "MONTHS = [''Jan'', ''Feb'', ''Mar'', ''Apr'', ''May'', ''Jun'',
             ''Jul'', ''Aug'', ''Sep'', ''Oct'', ''Nov'', ''Dec'']"

definition ROOM_TYPES :: "string list" where
  "ROOM_TYPES = [''Standard Double'', ''Superior Double'', ''Family Room'',
                 ''Suite'', ''Sea View Double'']"

definition BOARD_TYPES :: "string list" where
  "BOARD_TYPES = [''Self Catering'', ''Bed & Breakfast'', ''Half Board'',
                  ''Full Board'', ''All Inclusive'']"

definition DURATIONS :: "nat list" where
  "DURATIONS = [3, 5, 7, 10, 14]"

section \<open>The month grid\<close>

record room_entry =
  price :: int
  available :: bool
  perNight :: jsnum

record month_entry =
  month :: string
  year :: int
  rooms :: "(string \<times> room_entry) list"
  cheapest :: jsnum
  mostExpensive :: int
  avgPrice :: int
  availability :: string

text \<open>
  \<open>rooms\<close> is the object the code fills by \<^verbatim>\<open>rooms[rt] = {...}\<close>: an association list
  in insertion order, where a second assignment to a key replaces the value in place
  (\<^const>\<open>AList.update\<close>). \<^verbatim>\<open>Object.values\<close> is \<open>map snd\<close>.
\<close>

section \<open>The synthetic generator\<close>

text \<open>
  \<^verbatim>\<open>new Date()\<close> reads the clock. The reading is an argument of the model; the fields
  are the getters of a \<^verbatim>\<open>Date\<close>, of which the generator calls \<^verbatim>\<open>getMonth\<close> (0 to 11)
  and \<^verbatim>\<open>getFullYear\<close>.
\<close>

record date =
  getFullYear :: int
  getMonth :: nat
  getDate :: nat
  getTime :: int

text \<open>
  \<^verbatim>\<open>(hotel+airport+duration+board).split("").reduce((a,c)=>a+c.charCodeAt(0),0)\<close>
\<close>

definition seed_of :: "string \<Rightarrow> string \<Rightarrow> nat \<Rightarrow> string \<Rightarrow> nat" where
  "seed_of hotel airport duration board =
     fold (\<lambda>c a. a + of_char c) (hotel @ airport @ show_nat duration @ board) 0"

text \<open>\<^verbatim>\<open>rng=i=>{const x=Math.sin(seed+i)*10000;return x-Math.floor(x)}\<close>\<close>

definition rng :: "nat \<Rightarrow> int \<Rightarrow> real" where
  "rng seed i = (let x = sin (real_of_int (int seed + i)) * 10000 in x - of_int \<lfloor>x\<rfloor>)"

definition sm :: "real list" where
  "sm = [0.7, 0.65, 0.75, 0.85, 1, 1.25, 1.5, 1.55, 1.2, 0.9, 0.7, 0.65]"

definition dm :: "nat \<Rightarrow> real" where
  "dm duration =
     (if duration \<le> 3 then 0.5 else if duration \<le> 5 then 0.7
      else if duration \<le> 7 then 1 else if duration \<le> 10 then 1.35 else 1.7)"

definition bm :: "string \<Rightarrow> real" where
  "bm board = real_of_int (indexOf BOARD_TYPES board) * 0.12 + 0.85"

definition rm :: "(string \<times> real) list" where
  "rm = [(''Standard Double'', 1), (''Superior Double'', 1.2), (''Sea View Double'', 1.35),
         (''Family Room'', 1.45), (''Suite'', 1.9)]"

text \<open>
  The rest of the function reads the seed only through \<^verbatim>\<open>rng\<close>, so it is written for
  any \<open>rnd\<close> in its place; \<open>generateDemoData\<close> below passes \<open>rng seed\<close>.
\<close>

definition bp :: "(int \<Rightarrow> real) \<Rightarrow> real" where
  "bp rnd = 400 + rnd 1 * 600"

definition jitter_index :: "nat \<Rightarrow> nat \<Rightarrow> int" where
  "jitter_index i ri = int (i * 10 + ri)"

definition avail_index :: "nat \<Rightarrow> nat \<Rightarrow> int" where
  "avail_index i ri = int (i * 100 + ri)"

text \<open>
  \<^verbatim>\<open>p=Math.round(bp*sm[mi]*dm*bm*rm[rt]*(.95+rng(i*10+ri)*.1))\<close>.
  The loop visits the keys of \<open>rm\<close> only (lemma \<open>rm_defined\<close>), so the lookup
  \<^verbatim>\<open>rm[rt]\<close> is always a number.
\<close>

definition room_price :: "(int \<Rightarrow> real) \<Rightarrow> nat \<Rightarrow> string \<Rightarrow> nat \<Rightarrow> nat \<Rightarrow> string \<Rightarrow> nat \<Rightarrow> int" where
  "room_price rnd duration board mi i rt ri =
     round (bp rnd * sm ! mi * dm duration * bm board * the (map_of rm rt)
            * (0.95 + rnd (jitter_index i ri) * 0.1))"

type_synonym demo_acc = "(string \<times> room_entry) list \<times> jsnum \<times> int"

text \<open>One pass of \<^verbatim>\<open>ROOM_TYPES.forEach((rt,ri)=>{...})\<close> over \<open>(rooms, ch, mx)\<close>.\<close>

definition demo_room :: "(int \<Rightarrow> real) \<Rightarrow> nat \<Rightarrow> string \<Rightarrow> nat \<Rightarrow> nat \<Rightarrow> nat \<times> string \<Rightarrow> demo_acc \<Rightarrow> demo_acc" where
  "demo_room rnd duration board mi i = (\<lambda>(ri, rt) (rs, ch, mx).
     (let p = room_price rnd duration board mi i rt ri;
          av = (rnd (avail_index i ri) > 0.15)
      in (AList.update rt \<lparr>price = p, available = av,
                           perNight = Math_round_div (real_of_int p) duration\<rparr> rs,
          if js_lt p ch then Fin p else ch,
          if p > mx then p else mx)))"

definition demo_month :: "(int \<Rightarrow> real) \<Rightarrow> date \<Rightarrow> nat \<Rightarrow> string \<Rightarrow> nat \<Rightarrow> month_entry" where
  "demo_month rnd now duration board i =
     (let mi = (getMonth now + i) mod 12;
          yr = getFullYear now + (if getMonth now + i \<ge> 12 then 1 else 0);
          (rs, ch, mx) = fold (demo_room rnd duration board mi i)
                              (enumerate 0 ROOM_TYPES) ([], PosInf, 0)
      in \<lparr>month = MONTHS ! mi, year = yr, rooms = rs, cheapest = ch, mostExpensive = mx,
          avgPrice = round (real_of_int (fold (\<lambda>r a. a + price r) (map snd rs) 0)
                            / real (length ROOM_TYPES)),
          availability = show_nat (length (filter available (map snd rs)))
                         @ ''/'' @ show_nat (length ROOM_TYPES)\<rparr>)"

definition gen_months :: "(int \<Rightarrow> real) \<Rightarrow> date \<Rightarrow> nat \<Rightarrow> string \<Rightarrow> month_entry list" where
  "gen_months rnd now duration board = map (demo_month rnd now duration board) [0..<12]"

definition generateDemoData :: "date \<Rightarrow> string \<Rightarrow> string \<Rightarrow> nat \<Rightarrow> string \<Rightarrow> month_entry list" where
  "generateDemoData now hotel airport duration board =
     gen_months (rng (seed_of hotel airport duration board)) now duration board"

text \<open>
  The room entry the loop stores for room \<open>rt\<close> at position \<open>ri\<close>, and the lists of
  entries and of prices of one month; the lemmas below show that the loop computes them.
\<close>

definition demo_entry :: "(int \<Rightarrow> real) \<Rightarrow> nat \<Rightarrow> string \<Rightarrow> nat \<Rightarrow> nat \<Rightarrow> nat \<Rightarrow> string \<Rightarrow> room_entry" where
  "demo_entry rnd duration board mi i ri rt =
     \<lparr>price = room_price rnd duration board mi i rt ri,
      available = (rnd (avail_index i ri) > 0.15),
      perNight = Math_round_div (real_of_int (room_price rnd duration board mi i rt ri)) duration\<rparr>"

definition demo_rooms :: "(int \<Rightarrow> real) \<Rightarrow> nat \<Rightarrow> string \<Rightarrow> nat \<Rightarrow> nat \<Rightarrow> (string \<times> room_entry) list" where
  "demo_rooms rnd d b mi i =
     map (\<lambda>(ri, rt). (rt, demo_entry rnd d b mi i ri rt)) (enumerate 0 ROOM_TYPES)"

definition demo_prices :: "(int \<Rightarrow> real) \<Rightarrow> nat \<Rightarrow> string \<Rightarrow> nat \<Rightarrow> nat \<Rightarrow> int list" where
  "demo_prices rnd d b mi i =
     map (\<lambda>(ri, rt). room_price rnd d b mi i rt ri) (enumerate 0 ROOM_TYPES)"

text \<open>The running minimum \<^verbatim>\<open>if(p<ch)ch=p\<close> over a list of prices.\<close>

fun run_min :: "int list \<Rightarrow> jsnum \<Rightarrow> jsnum" where
  "run_min [] ch = ch"
| "run_min (p # ps) ch = run_min ps (if js_lt p ch then Fin p else ch)"

section \<open>The generator in the arithmetic of the machine\<close>

text \<open>
  A JavaScript number is a double, and an arithmetic operation returns the double nearest
  to its exact result; the value of \<^verbatim>\<open>Math.sin\<close> is left to the implementation. The
  section above reads both as exact. Here the generator is embedded again with the two as
  arguments: \<open>fl x\<close> is the double that an operation with the exact result \<open>x\<close> returns, a
  literal \<^verbatim>\<open>.7\<close> is \<open>fl 0.7\<close>, and \<open>msin\<close> is \<^verbatim>\<open>Math.sin\<close>. The seed, the indices and
  the rounded prices are integers, which doubles hold exactly, and \<^verbatim>\<open>Math.round\<close> and
  \<^verbatim>\<open>Math.floor\<close> return the exact integer. With \<open>fl\<close> the identity and \<open>msin\<close> the sine
  the definitions are those of the section above (lemma \<open>generateDemoData_fl_exact\<close>).
\<close>

text \<open>\<^verbatim>\<open>rng=i=>{const x=Math.sin(seed+i)*10000;return x-Math.floor(x)}\<close>\<close>

definition rng_fl :: "(real \<Rightarrow> real) \<Rightarrow> (real \<Rightarrow> real) \<Rightarrow> nat \<Rightarrow> int \<Rightarrow> real" where
  "rng_fl fl msin seed i =
     (let x = fl (msin (real_of_int (int seed + i)) * fl 10000) in fl (x - of_int \<lfloor>x\<rfloor>))"

definition sm_fl :: "(real \<Rightarrow> real) \<Rightarrow> real list" where
  "sm_fl fl = [fl 0.7, fl 0.65, fl 0.75, fl 0.85, fl 1, fl 1.25, fl 1.5, fl 1.55, fl 1.2,
               fl 0.9, fl 0.7, fl 0.65]"

definition dm_fl :: "(real \<Rightarrow> real) \<Rightarrow> nat \<Rightarrow> real" where
  "dm_fl fl duration =
     (if duration \<le> 3 then fl 0.5 else if duration \<le> 5 then fl 0.7
      else if duration \<le> 7 then fl 1 else if duration \<le> 10 then fl 1.35 else fl 1.7)"

definition bm_fl :: "(real \<Rightarrow> real) \<Rightarrow> string \<Rightarrow> real" where
  "bm_fl fl board = fl (fl (real_of_int (indexOf BOARD_TYPES board) * fl 0.12) + fl 0.85)"

definition rm_fl :: "(real \<Rightarrow> real) \<Rightarrow> (string \<times> real) list" where
  "rm_fl fl = [(''Standard Double'', fl 1), (''Superior Double'', fl 1.2),
               (''Sea View Double'', fl 1.35), (''Family Room'', fl 1.45), (''Suite'', fl 1.9)]"

text \<open>\<^verbatim>\<open>bp=400+rng(1)*600\<close>\<close>

definition bp_fl :: "(real \<Rightarrow> real) \<Rightarrow> (int \<Rightarrow> real) \<Rightarrow> real" where
  "bp_fl fl rnd = fl (fl 400 + fl (rnd 1 * fl 600))"

text \<open>
  \<^verbatim>\<open>p=Math.round(bp*sm[mi]*dm*bm*rm[rt]*(.95+rng(i*10+ri)*.1))\<close>: the product
  associates to the left, and each partial product is rounded to a double.
\<close>

definition room_price_fl ::
  "(real \<Rightarrow> real) \<Rightarrow> (int \<Rightarrow> real) \<Rightarrow> nat \<Rightarrow> string \<Rightarrow> nat \<Rightarrow> nat \<Rightarrow> string \<Rightarrow> nat \<Rightarrow> int" where
  "room_price_fl fl rnd duration board mi i rt ri =
     round (fl (fl (fl (fl (fl (bp_fl fl rnd * sm_fl fl ! mi) * dm_fl fl duration)
                        * bm_fl fl board) * the (map_of (rm_fl fl) rt))
                * fl (fl 0.95 + fl (rnd (jitter_index i ri) * fl 0.1))))"

text \<open>\<^verbatim>\<open>Math.round(x / d)\<close> with the quotient rounded to a double.\<close>

definition Math_round_div_fl :: "(real \<Rightarrow> real) \<Rightarrow> real \<Rightarrow> nat \<Rightarrow> jsnum" where
  "Math_round_div_fl fl x d =
     (if d = 0 then (if 0 < x then PosInf else if x < 0 then NegInf else NaN)
      else Fin (round (fl (x / real d))))"

definition demo_room_fl ::
  "(real \<Rightarrow> real) \<Rightarrow> (int \<Rightarrow> real) \<Rightarrow> nat \<Rightarrow> string \<Rightarrow> nat \<Rightarrow> nat \<Rightarrow> nat \<times> string
     \<Rightarrow> demo_acc \<Rightarrow> demo_acc" where
  "demo_room_fl fl rnd duration board mi i = (\<lambda>(ri, rt) (rs, ch, mx).
     (let p = room_price_fl fl rnd duration board mi i rt ri;
          av = (rnd (avail_index i ri) > fl 0.15)
      in (AList.update rt \<lparr>price = p, available = av,
                           perNight = Math_round_div_fl fl (real_of_int p) duration\<rparr> rs,
          if js_lt p ch then Fin p else ch,
          if p > mx then p else mx)))"

definition demo_month_fl ::
  "(real \<Rightarrow> real) \<Rightarrow> (int \<Rightarrow> real) \<Rightarrow> date \<Rightarrow> nat \<Rightarrow> string \<Rightarrow> nat \<Rightarrow> month_entry" where
  "demo_month_fl fl rnd now duration board i =
     (let mi = (getMonth now + i) mod 12;
          yr = getFullYear now + (if getMonth now + i \<ge> 12 then 1 else 0);
          (rs, ch, mx) = fold (demo_room_fl fl rnd duration board mi i)
                              (enumerate 0 ROOM_TYPES) ([], PosInf, 0)
      in \<lparr>month = MONTHS ! mi, year = yr, rooms = rs, cheapest = ch, mostExpensive = mx,
          avgPrice = round (fl (real_of_int (fold (\<lambda>r a. a + price r) (map snd rs) 0)
                                / real (length ROOM_TYPES))),
          availability = show_nat (length (filter available (map snd rs)))
                         @ ''/'' @ show_nat (length ROOM_TYPES)\<rparr>)"

definition gen_months_fl ::
  "(real \<Rightarrow> real) \<Rightarrow> (int \<Rightarrow> real) \<Rightarrow> date \<Rightarrow> nat \<Rightarrow> string \<Rightarrow> month_entry list" where
  "gen_months_fl fl rnd now duration board =
     map (demo_month_fl fl rnd now duration board) [0..<12]"

definition generateDemoData_fl ::
  "(real \<Rightarrow> real) \<Rightarrow> (real \<Rightarrow> real) \<Rightarrow> date \<Rightarrow> string \<Rightarrow> string \<Rightarrow> nat \<Rightarrow> string
     \<Rightarrow> month_entry list" where
  "generateDemoData_fl fl msin now hotel airport duration board =
     gen_months_fl fl (rng_fl fl msin (seed_of hotel airport duration board)) now duration board"

text \<open>The room entry the loop stores for room \<open>rt\<close> at position \<open>ri\<close>.\<close>

definition demo_entry_fl ::
  "(real \<Rightarrow> real) \<Rightarrow> (int \<Rightarrow> real) \<Rightarrow> nat \<Rightarrow> string \<Rightarrow> nat \<Rightarrow> nat \<Rightarrow> nat \<Rightarrow> string \<Rightarrow> room_entry" where
  "demo_entry_fl fl rnd duration board mi i ri rt =
     \<lparr>price = room_price_fl fl rnd duration board mi i rt ri,
      available = (rnd (avail_index i ri) > fl 0.15),
      perNight = Math_round_div_fl fl (real_of_int (room_price_fl fl rnd duration board mi i rt ri))
                   duration\<rparr>"

section \<open>The live data normalizer\<close>

text \<open>
  The input is parsed JSON. A field that may be missing is an \<open>option\<close> (\<open>None\<close> for
  \<^verbatim>\<open>undefined\<close> or \<^verbatim>\<open>null\<close>); an object is an association list with the distinct keys
  \<^verbatim>\<open>JSON.parse\<close> leaves. A price is a JSON number. Reading a property of
  \<^verbatim>\<open>undefined\<close> throws a \<^verbatim>\<open>TypeError\<close>, which is the \<open>Inl\<close> of the result.

  The records of this section have the shapes the scraper writes: the months and the
  room types are arrays where they are there, and the labels are strings. The section on
  records of any shape, further down, drops these assumptions.
\<close>

datatype error = TypeError | HttpError | SyntaxError | NetworkFailure

record raw_room =
  price_pp :: "real option"

record raw_month =
  month_label :: "string option"
  month_key :: "string option"
  m_rooms :: "(string \<times> raw_room) list option"

record hotel =
  h_name :: string
  h_months :: "raw_month list option"
  h_roomTypes :: "string list option"

record live_result =
  months :: "month_entry list"
  roomTypes :: "string list"

text \<open>\<^verbatim>\<open>String.prototype.split\<close> on a one-character separator.\<close>

fun split_on :: "char \<Rightarrow> string \<Rightarrow> string list" where
  "split_on c [] = [[]]"
| "split_on c (x # xs) =
     (if x = c then [] # split_on c xs
      else (case split_on c xs of [] \<Rightarrow> [[x]] | p # ps \<Rightarrow> (x # p) # ps))"

text \<open>
  \<^verbatim>\<open>parseInt\<close> with no radix argument: leading white space, a sign, an optional
  \<^verbatim>\<open>0x\<close> prefix, then the longest prefix of digits; \<open>None\<close> is \<^verbatim>\<open>NaN\<close>.
\<close>

definition is_ws :: "char \<Rightarrow> bool" where
  "is_ws c = ((of_char c :: nat) \<in> {9, 10, 11, 12, 13, 32, 160})"

definition digit_val :: "char \<Rightarrow> nat option" where
  "digit_val c =
     (let n = (of_char c :: nat) in
      if 48 \<le> n \<and> n \<le> 57 then Some (n - 48)
      else if 97 \<le> n \<and> n \<le> 122 then Some (n - 87)
      else if 65 \<le> n \<and> n \<le> 90 then Some (n - 55)
      else None)"

fun parse_digits :: "nat \<Rightarrow> string \<Rightarrow> nat option \<Rightarrow> nat option" where
  "parse_digits r [] acc = acc"
| "parse_digits r (c # cs) acc =
     (case digit_val c of
        None \<Rightarrow> acc
      | Some v \<Rightarrow>
          if v < r then parse_digits r cs (Some (case acc of None \<Rightarrow> v | Some a \<Rightarrow> a * r + v))
          else acc)"

definition parseInt :: "string \<Rightarrow> int option" where
  "parseInt s =
     (let s1 = dropWhile is_ws s;
          (neg, s2) = (case s1 of
                         [] \<Rightarrow> (False, [])
                       | c # cs \<Rightarrow> if c = CHR ''-'' then (True, cs)
                                   else if c = CHR ''+'' then (False, cs) else (False, s1));
          (r, s3) = (case s2 of
                       a # b # cs \<Rightarrow> if a = CHR ''0'' \<and> (b = CHR ''x'' \<or> b = CHR ''X'')
                                      then (16, cs) else (10, s2)
                     | _ \<Rightarrow> (10, s2))
      in case parse_digits r s3 None of
           None \<Rightarrow> None
         | Some n \<Rightarrow> Some (if neg then - int n else int n))"

text \<open>\<^verbatim>\<open>label=m.month_label||m.month_key||""\<close>: an empty string is falsy.\<close>

definition label_of :: "raw_month \<Rightarrow> string" where
  "label_of m =
     (case month_label m of
        Some s \<Rightarrow> if s \<noteq> [] then s else (case month_key m of Some k \<Rightarrow> k | None \<Rightarrow> [])
      | None \<Rightarrow> (case month_key m of Some k \<Rightarrow> k | None \<Rightarrow> []))"

text \<open>\<^verbatim>\<open>parseInt(parts[1])||2026\<close>: \<^verbatim>\<open>NaN\<close> and 0 are falsy.\<close>

definition year_of :: "string list \<Rightarrow> int" where
  "year_of parts =
     (case (case parts of _ # y # _ \<Rightarrow> parseInt y | _ \<Rightarrow> None) of
        None \<Rightarrow> 2026
      | Some n \<Rightarrow> if n = 0 then 2026 else n)"

text \<open>
  \<^verbatim>\<open>rd=m.rooms[r]\<close> followed by \<^verbatim>\<open>rd&&rd.price_pp\<close>: the raw price when the room and
  its price are both there.
\<close>

definition raw_price :: "(string \<times> raw_room) list \<Rightarrow> string \<Rightarrow> real option" where
  "raw_price rs r = (case map_of rs r of None \<Rightarrow> None | Some rd \<Rightarrow> price_pp rd)"

type_synonym live_acc = "(string \<times> room_entry) list \<times> real option \<times> real"

text \<open>
  One pass of \<^verbatim>\<open>rt.forEach(r=>{...})\<close> over \<open>(rooms, ch, mx)\<close>; \<open>ch = None\<close> is the
  \<^verbatim>\<open>Infinity\<close> it starts from, and \<open>ch\<close> and \<open>mx\<close> hold raw prices.
\<close>

definition live_room :: "nat \<Rightarrow> (string \<times> raw_room) list \<Rightarrow> string \<Rightarrow> live_acc \<Rightarrow> live_acc" where
  "live_room d rs r = (\<lambda>(rms, ch, mx).
     (case raw_price rs r of
        Some pp \<Rightarrow>
          if pp > 0 then
            (AList.update r \<lparr>price = round pp, available = True,
                              perNight = Math_round_div pp d\<rparr> rms,
             (if (case ch of None \<Rightarrow> True | Some c \<Rightarrow> pp < c) then Some pp else ch),
             (if pp > mx then pp else mx))
          else (AList.update r \<lparr>price = 0, available = False, perNight = Fin 0\<rparr> rms, ch, mx)
      | None \<Rightarrow> (AList.update r \<lparr>price = 0, available = False, perNight = Fin 0\<rparr> rms, ch, mx)))"

text \<open>
  The body of \<^verbatim>\<open>h._months.map(m=>{...})\<close>. The first \<^verbatim>\<open>m.rooms[r]\<close> throws when the
  month has no \<^verbatim>\<open>rooms\<close>.
\<close>

definition live_month :: "string list \<Rightarrow> nat \<Rightarrow> raw_month \<Rightarrow> error + month_entry" where
  "live_month rt d m =
     (case (case rt of
              [] \<Rightarrow> Inr ([], None, 0)
            | _ # _ \<Rightarrow> (case m_rooms m of
                          None \<Rightarrow> Inl TypeError
                        | Some rs \<Rightarrow> Inr (fold (live_room d rs) rt ([], None, 0)))) of
        Inl e \<Rightarrow> Inl e
      | Inr (rms, ch, mx) \<Rightarrow>
          (let parts = split_on CHR '' '' (label_of m);
               priced = filter (\<lambda>r. price r > 0) (map snd rms)
           in Inr \<lparr>month = (case parts of [] \<Rightarrow> [] | p # _ \<Rightarrow> p),
                   year = year_of parts,
                   rooms = rms,
                   cheapest = Fin (case ch of None \<Rightarrow> 0 | Some c \<Rightarrow> round c),
                   mostExpensive = round mx,
                   avgPrice = round (real_of_int (fold (\<lambda>r a. a + price r) priced 0)
                                     / real (max (length priced) 1)),
                   availability = show_nat (length (filter available (map snd rms)))
                                  @ ''/'' @ show_nat (length rt)\<rparr>))"

text \<open>\<^verbatim>\<open>Array.prototype.map\<close> with a callback that may throw: the first throw ends it.\<close>

fun map_throw :: "('a \<Rightarrow> error + 'b) \<Rightarrow> 'a list \<Rightarrow> error + 'b list" where
  "map_throw f [] = Inr []"
| "map_throw f (x # xs) =
     (case f x of
        Inl e \<Rightarrow> Inl e
      | Inr y \<Rightarrow> (case map_throw f xs of Inl e \<Rightarrow> Inl e | Inr ys \<Rightarrow> Inr (y # ys)))"

text \<open>\<^verbatim>\<open>rt=h._roomTypes||ROOM_TYPES\<close>: an array, even an empty one, is truthy.\<close>

definition active_room_types :: "hotel \<Rightarrow> string list" where
  "active_room_types h = (case h_roomTypes h of None \<Rightarrow> ROOM_TYPES | Some l \<Rightarrow> l)"

text \<open>
  \<^verbatim>\<open>buildLiveMonths(h,ap,d)\<close>; \<open>Inr None\<close> is the \<^verbatim>\<open>null\<close> it returns, \<open>Inl\<close> an
  exception that leaves it.
\<close>

definition buildLiveMonths :: "hotel \<Rightarrow> string \<Rightarrow> nat \<Rightarrow> error + live_result option" where
  "buildLiveMonths h ap d =
     (case h_months h of
        None \<Rightarrow> Inr None
      | Some ms \<Rightarrow>
          if ms = [] then Inr None
          else (let rt = active_room_types h in
                if rt = [] then Inr None
                else (case map_throw (live_month rt d) ms of
                        Inl e \<Rightarrow> Inl e
                      | Inr ms' \<Rightarrow>
                          (let validMonths = filter (\<lambda>m. js_gt0 (cheapest m)) ms' in
                           if validMonths = [] then Inr None
                           else Inr (Some \<lparr>months = validMonths, roomTypes = rt\<rparr>)))))"

text \<open>
  What the loop of the normalizer keeps true of \<open>(rooms, ch, mx)\<close>: an available room's
  price is at least the rounded running minimum, and an unavailable room's price is 0.
\<close>

definition live_inv :: "live_acc \<Rightarrow> bool" where
  "live_inv = (\<lambda>(rms, ch, mx).
     list_all (\<lambda>e. if available e
                    then (case ch of None \<Rightarrow> False | Some c \<Rightarrow> round c \<le> price e)
                    else price e = 0) (map snd rms))"

section \<open>The start-up fetch\<close>

text \<open>
  The effect that runs once on mount chains two \<^verbatim>\<open>then\<close> handlers and a \<^verbatim>\<open>catch\<close>
  on \<^verbatim>\<open>fetch\<close>. What the network hands back is the outcome; a handler that throws
  rejects the promise it feeds, and the \<^verbatim>\<open>catch\<close> handler runs on any rejection.
\<close>

datatype json = JNull | JBool bool | JNum real | JStr string
  | JArr "json list" | JObj "(string \<times> json) list"

datatype body = Unparsable | Parsed json

datatype fetch_outcome = NoResponse | Response bool body

record app_state =
  liveData :: "json option"
  liveStatus :: string
  mode :: string

definition initial_state :: app_state where
  "initial_state = \<lparr>liveData = None, liveStatus = ''loading'', mode = ''demo''\<rparr>"

text \<open>Truthiness of a property value; \<open>None\<close> is \<^verbatim>\<open>undefined\<close>.\<close>

fun truthy :: "json option \<Rightarrow> bool" where
  "truthy None = False"
| "truthy (Some JNull) = False"
| "truthy (Some (JBool b)) = b"
| "truthy (Some (JNum x)) = (x \<noteq> 0)"
| "truthy (Some (JStr s)) = (s \<noteq> [])"
| "truthy (Some (JArr xs)) = True"
| "truthy (Some (JObj kvs)) = True"

text \<open>\<^verbatim>\<open>v?.length\<close> as a condition, for the value \<open>v\<close> of \<^verbatim>\<open>d.hotels\<close>.\<close>

fun length_truthy :: "json option \<Rightarrow> bool" where
  "length_truthy None = False"
| "length_truthy (Some JNull) = False"
| "length_truthy (Some (JBool b)) = False"
| "length_truthy (Some (JNum x)) = False"
| "length_truthy (Some (JStr s)) = (s \<noteq> [])"
| "length_truthy (Some (JArr xs)) = (xs \<noteq> [])"
| "length_truthy (Some (JObj kvs)) = truthy (map_of kvs ''length'')"

text \<open>\<^verbatim>\<open>d.hotels\<close>: a property read of \<^verbatim>\<open>null\<close> throws; other non-objects have no such property.\<close>

fun get_hotels :: "json \<Rightarrow> error + json option" where
  "get_hotels JNull = Inl TypeError"
| "get_hotels (JObj kvs) = Inr (map_of kvs ''hotels'')"
| "get_hotels (JBool b) = Inr None"
| "get_hotels (JNum x) = Inr None"
| "get_hotels (JStr s) = Inr None"
| "get_hotels (JArr xs) = Inr None"

text \<open>\<^verbatim>\<open>r=>{if(!r.ok)throw new Error();return r.json()}\<close>\<close>

definition on_response :: "bool \<Rightarrow> body \<Rightarrow> error + json" where
  "on_response ok b =
     (if \<not> ok then Inl HttpError
      else (case b of Unparsable \<Rightarrow> Inl SyntaxError | Parsed d \<Rightarrow> Inr d))"

text \<open>
  \<^verbatim>\<open>d=>{if(d.hotels?.length){setLiveData(d);setLiveStatus("ok");setMode("live")}
  else setLiveStatus("none")}\<close>
\<close>

definition on_data :: "json \<Rightarrow> app_state \<Rightarrow> error + app_state" where
  "on_data d s =
     (case get_hotels d of
        Inl e \<Rightarrow> Inl e
      | Inr hs \<Rightarrow>
          if length_truthy hs
          then Inr (s\<lparr>liveData := Some d, liveStatus := ''ok'', mode := ''live''\<rparr>)
          else Inr (s\<lparr>liveStatus := ''none''\<rparr>))"

text \<open>The whole chain, ending in \<^verbatim>\<open>.catch(()=>setLiveStatus("none"))\<close>.\<close>

definition startup_fetch :: "fetch_outcome \<Rightarrow> app_state \<Rightarrow> app_state" where
  "startup_fetch outcome s =
     (case (case outcome of
              NoResponse \<Rightarrow> Inl NetworkFailure
            | Response ok b \<Rightarrow>
                (case on_response ok b of Inl e \<Rightarrow> Inl e | Inr d \<Rightarrow> on_data d s)) of
        Inl e \<Rightarrow> s\<lparr>liveStatus := ''none''\<rparr>
      | Inr s' \<Rightarrow> s')"

section \<open>The normalizer on records of any shape\<close>

text \<open>
  \<^verbatim>\<open>pricing_data.json\<close> is written by another program, and \<^verbatim>\<open>buildLiveMonths\<close> tests the
  shape of some of its fields only. In this section \<^verbatim>\<open>_months\<close> and \<^verbatim>\<open>_roomTypes\<close> hold
  any JSON value or \<^verbatim>\<open>undefined\<close>, a month entry is any JSON value, and its
  \<^verbatim>\<open>month_label\<close> and \<^verbatim>\<open>month_key\<close> hold any JSON value or \<^verbatim>\<open>undefined\<close>. What stays as
  in the section on the normalizer: the room-type names of an array are strings, and a
  \<^verbatim>\<open>rooms\<close> field that is neither \<^verbatim>\<open>undefined\<close> nor \<^verbatim>\<open>null\<close> is an object of rooms whose
  \<^verbatim>\<open>price_pp\<close> is a number or missing. On a record of the shapes of that section the
  function is \<^const>\<open>buildLiveMonths\<close> (lemma \<open>buildLiveMonths_json_of\<close>).
\<close>

text \<open>A value that is not an array: \<^verbatim>\<open>undefined\<close>, or a JSON value other than an array.\<close>

datatype non_array = NUndefined | NNull | NBool bool | NNum real | NStr string
  | NObj "(string \<times> json) list"

fun json_of :: "non_array \<Rightarrow> json option" where
  "json_of NUndefined = None"
| "json_of NNull = Some JNull"
| "json_of (NBool b) = Some (JBool b)"
| "json_of (NNum x) = Some (JNum x)"
| "json_of (NStr s) = Some (JStr s)"
| "json_of (NObj kvs) = Some (JObj kvs)"

datatype 'a array_field = An_array "'a list" | Not_array non_array

text \<open>A field \<open>v\<close> as a condition, and \<^verbatim>\<open>v.length\<close> as a condition for a truthy \<open>v\<close>.\<close>

fun truthy_field :: "'a array_field \<Rightarrow> bool" where
  "truthy_field (An_array xs) = True"
| "truthy_field (Not_array v) = truthy (json_of v)"

fun length_field :: "'a array_field \<Rightarrow> bool" where
  "length_field (An_array xs) = (xs \<noteq> [])"
| "length_field (Not_array v) = length_truthy (json_of v)"

record json_month =
  jm_label :: "json option"
  jm_key :: "json option"
  jm_rooms :: "(string \<times> raw_room) list option"

text \<open>
  An element of the months array: an object, \<^verbatim>\<open>null\<close>, or a boolean, a number, a string
  or an array, whose properties \<^verbatim>\<open>rooms\<close>, \<^verbatim>\<open>month_label\<close> and \<^verbatim>\<open>month_key\<close> read as
  \<^verbatim>\<open>undefined\<close>.
\<close>

datatype month_value = Month_object json_month | Month_null | Month_other

record json_hotel =
  jh_name :: string
  jh_months :: "month_value array_field"
  jh_roomTypes :: "string array_field"

text \<open>
  \<^verbatim>\<open>label=m.month_label||m.month_key||""\<close> followed by \<^verbatim>\<open>label.split(" ")\<close>: only a
  string has a method \<^verbatim>\<open>split\<close>, and the call throws on any other truthy value.
\<close>

definition json_label :: "json_month \<Rightarrow> error + string" where
  "json_label m =
     (case (if truthy (jm_label m) then jm_label m
            else if truthy (jm_key m) then jm_key m else Some (JStr [])) of
        Some (JStr s) \<Rightarrow> Inr s
      | _ \<Rightarrow> Inl TypeError)"

text \<open>The object the callback returns, from the label and from what the loop has left.\<close>

definition month_entry_of :: "string list \<Rightarrow> string \<Rightarrow> live_acc \<Rightarrow> month_entry" where
  "month_entry_of rt label = (\<lambda>(rms, ch, mx).
     (let parts = split_on CHR '' '' label;
          priced = filter (\<lambda>r. price r > 0) (map snd rms)
      in \<lparr>month = (case parts of [] \<Rightarrow> [] | p # _ \<Rightarrow> p),
          year = year_of parts,
          rooms = rms,
          cheapest = Fin (case ch of None \<Rightarrow> 0 | Some c \<Rightarrow> round c),
          mostExpensive = round mx,
          avgPrice = round (real_of_int (fold (\<lambda>r a. a + price r) priced 0)
                            / real (max (length priced) 1)),
          availability = show_nat (length (filter available (map snd rms)))
                         @ ''/'' @ show_nat (length rt)\<rparr>))"

text \<open>
  The body of \<^verbatim>\<open>h._months.map(m=>{...})\<close> for an array \<open>rt\<close> of room types. The first
  \<^verbatim>\<open>m.rooms[r]\<close> throws when \<open>m\<close> is \<^verbatim>\<open>null\<close> or \<^verbatim>\<open>m.rooms\<close> is \<^verbatim>\<open>undefined\<close> or
  \<^verbatim>\<open>null\<close>; with no room type the loop does not run, and \<^verbatim>\<open>m.month_label\<close> throws
  when \<open>m\<close> is \<^verbatim>\<open>null\<close>.
\<close>

definition live_month_json :: "string list \<Rightarrow> nat \<Rightarrow> month_value \<Rightarrow> error + month_entry" where
  "live_month_json rt d mv =
     (case mv of
        Month_null \<Rightarrow> Inl TypeError
      | Month_other \<Rightarrow>
          (case rt of [] \<Rightarrow> Inr (month_entry_of rt [] ([], None, 0)) | _ # _ \<Rightarrow> Inl TypeError)
      | Month_object m \<Rightarrow>
          (case (case rt of
                   [] \<Rightarrow> Inr ([], None, 0)
                 | _ # _ \<Rightarrow> (case jm_rooms m of
                               None \<Rightarrow> Inl TypeError
                             | Some rs \<Rightarrow> Inr (fold (live_room d rs) rt ([], None, 0)))) of
             Inl e \<Rightarrow> Inl e
           | Inr acc \<Rightarrow>
               (case json_label m of
                  Inl e \<Rightarrow> Inl e
                | Inr label \<Rightarrow> Inr (month_entry_of rt label acc))))"

text \<open>\<^verbatim>\<open>rt=h._roomTypes||ROOM_TYPES\<close>\<close>

definition room_types_of :: "json_hotel \<Rightarrow> string array_field" where
  "room_types_of h =
     (if truthy_field (jh_roomTypes h) then jh_roomTypes h else An_array ROOM_TYPES)"

text \<open>
  \<^verbatim>\<open>buildLiveMonths(h,ap,d)\<close>. A value with a truthy \<^verbatim>\<open>length\<close> that is not an array (a
  string, an object with such a property) passes the two tests; it has no method
  \<^verbatim>\<open>map\<close> or \<^verbatim>\<open>forEach\<close>, so \<^verbatim>\<open>h._months.map\<close> throws, and \<^verbatim>\<open>rt.forEach\<close> throws in
  the callback of the first month.
\<close>

definition buildLiveMonths_json :: "json_hotel \<Rightarrow> string \<Rightarrow> nat \<Rightarrow> error + live_result option" where
  "buildLiveMonths_json h ap d =
     (if \<not> truthy_field (jh_months h) \<or> \<not> length_field (jh_months h) then Inr None
      else (let rt = room_types_of h in
            if \<not> length_field rt then Inr None
            else (case jh_months h of
                    Not_array v \<Rightarrow> Inl TypeError
                  | An_array ms \<Rightarrow>
                      (case rt of
                         Not_array v \<Rightarrow> Inl TypeError
                       | An_array rs \<Rightarrow>
                           (case map_throw (live_month_json rs d) ms of
                              Inl e \<Rightarrow> Inl e
                            | Inr ms' \<Rightarrow>
                                (let validMonths = filter (\<lambda>m. js_gt0 (cheapest m)) ms' in
                                 if validMonths = [] then Inr None
                                 else Inr (Some \<lparr>months = validMonths, roomTypes = rs\<rparr>)))))))"

text \<open>
  The records on which the normalizer is shown to raise no exception. The months and the
  room types are arrays, and every month entry is an object with a \<^verbatim>\<open>rooms\<close> object,
  a \<^verbatim>\<open>month_label\<close> that is a string or falsy and, where \<^verbatim>\<open>month_label\<close> is falsy, a
  \<^verbatim>\<open>month_key\<close> that is a string or falsy.
\<close>

fun string_or_falsy :: "json option \<Rightarrow> bool" where
  "string_or_falsy (Some (JStr s)) = True"
| "string_or_falsy v = (\<not> truthy v)"

definition month_ok :: "month_value \<Rightarrow> bool" where
  "month_ok mv =
     (case mv of
        Month_object m \<Rightarrow>
          jm_rooms m \<noteq> None \<and> string_or_falsy (jm_label m)
          \<and> (truthy (jm_label m) \<or> string_or_falsy (jm_key m))
      | _ \<Rightarrow> False)"

definition well_formed :: "json_hotel \<Rightarrow> bool" where
  "well_formed h =
     (case jh_months h of
        Not_array v \<Rightarrow> False
      | An_array ms \<Rightarrow>
          (case room_types_of h of Not_array v \<Rightarrow> False | An_array rs \<Rightarrow> list_all month_ok ms))"

text \<open>A record of the section on the normalizer, as a record of this section.\<close>

definition json_month_of :: "raw_month \<Rightarrow> month_value" where
  "json_month_of m =
     Month_object \<lparr>jm_label = map_option JStr (month_label m),
                   jm_key = map_option JStr (month_key m), jm_rooms = m_rooms m\<rparr>"

definition json_hotel_of :: "hotel \<Rightarrow> json_hotel" where
  "json_hotel_of h =
     \<lparr>jh_name = h_name h,
      jh_months = (case h_months h of None \<Rightarrow> Not_array NUndefined
                   | Some ms \<Rightarrow> An_array (map json_month_of ms)),
      jh_roomTypes = (case h_roomTypes h of None \<Rightarrow> Not_array NUndefined
                      | Some l \<Rightarrow> An_array l)\<rparr>"

section \<open>Clock readings used as examples\<close>

text \<open>Noon UTC on 31 January, 1 February, 2 November and 30 November 2026.\<close>

definition jan31 :: date where
  "jan31 = \<lparr>getFullYear = 2026, getMonth = 0, getDate = 31, getTime = 1769860800000\<rparr>"

definition feb01 :: date where
  "feb01 = \<lparr>getFullYear = 2026, getMonth = 1, getDate = 1, getTime = 1769947200000\<rparr>"

definition nov02 :: date where
  "nov02 = \<lparr>getFullYear = 2026, getMonth = 10, getDate = 2, getTime = 1793620800000\<rparr>"

definition nov30 :: date where
  "nov30 = \<lparr>getFullYear = 2026, getMonth = 10, getDate = 30, getTime = 1796040000000\<rparr>"

section \<open>Scraped records used as examples\<close>

text \<open>
  Hotel records as the scraper writes them: \<open>scraped_month\<close> is a month entry with a
  label and a price per room; the hotels below are the inputs of the closed theorems.
\<close>

definition scraped_month :: "string \<Rightarrow> (string \<times> real) list \<Rightarrow> raw_month" where
  "scraped_month label prices =
     \<lparr>month_label = Some label, month_key = None,
      m_rooms = Some (map (\<lambda>(r, p). (r, \<lparr>price_pp = Some p\<rparr>)) prices)\<rparr>"

definition hotel_suite_450 :: hotel where
  "hotel_suite_450 =
     \<lparr>h_name = ''Zafiro Palace Alcudia'',
      h_months = Some [scraped_month ''Jun 2026'' [(''Suite'', 450)]],
      h_roomTypes = Some [''Suite'']\<rparr>"

definition hotel_suite_0 :: hotel where
  "hotel_suite_0 =
     \<lparr>h_name = ''Zafiro Palace Alcudia'',
      h_months = Some [scraped_month ''Jun 2026'' [(''Suite'', 0)]],
      h_roomTypes = Some [''Suite'']\<rparr>"

definition hotel_fractional :: hotel where
  "hotel_fractional =
     \<lparr>h_name = ''Hotel Flamingo Oasis'',
      h_months = Some [scraped_month ''Jun 2026'' [(''Suite'', 14.6)]],
      h_roomTypes = Some [''Suite'']\<rparr>"

definition hotel_no_rooms :: hotel where
  "hotel_no_rooms =
     \<lparr>h_name = ''Hotel Flamingo Oasis'',
      h_months = Some [\<lparr>month_label = Some ''Jun 2026'', month_key = None, m_rooms = None\<rparr>],
      h_roomTypes = Some [''Suite'']\<rparr>"

definition hotel_13_months :: hotel where
  "hotel_13_months =
     \<lparr>h_name = ''Olympic Lagoon Resort'',
      h_months = Some (map (\<lambda>l. scraped_month l [(''Suite'', 450)])
        [''Jun 2026'', ''Jul 2026'', ''Aug 2026'', ''Sep 2026'', ''Oct 2026'', ''Nov 2026'',
         ''Dec 2026'', ''Jan 2027'', ''Feb 2027'', ''Mar 2027'', ''Apr 2027'', ''May 2027'',
         ''Jun 2027'']),
      h_roomTypes = Some [''Suite'']\<rparr>"

definition hotel_other_names :: hotel where
  "hotel_other_names =
     \<lparr>h_name = ''Rixos Premium Bodrum'',
      h_months = Some [scraped_month ''Jun 2026'' [(''Deluxe Twin'', 512)]],
      h_roomTypes = None\<rparr>"

definition hotel_mixed :: hotel where
  "hotel_mixed =
     \<lparr>h_name = ''Mitsis Rinela Beach Resort'',
      h_months = Some [scraped_month ''Jul 2026''
                         [(''Standard Double'', 380), (''Family Room'', 0), (''Suite'', 450.4)]],
      h_roomTypes = Some [''Standard Double'', ''Family Room'', ''Suite'']\<rparr>"

text \<open>
  Records that are not of the scraper's shapes: a numeric month label, a string in the
  place of the months, \<^verbatim>\<open>true\<close> in the place of the room types.
\<close>

definition hotel_numeric_label :: json_hotel where
  "hotel_numeric_label =
     \<lparr>jh_name = ''Zafiro Palace Alcudia'',
      jh_months = An_array [Month_object \<lparr>jm_label = Some (JNum 202606), jm_key = None,
                              jm_rooms = Some [(''Suite'', \<lparr>price_pp = Some 450\<rparr>)]\<rparr>],
      jh_roomTypes = An_array [''Suite'']\<rparr>"

definition hotel_months_text :: json_hotel where
  "hotel_months_text =
     \<lparr>jh_name = ''Zafiro Palace Alcudia'',
      jh_months = Not_array (NStr ''Jun 2026''),
      jh_roomTypes = An_array [''Suite'']\<rparr>"

definition hotel_types_true :: json_hotel where
  "hotel_types_true =
     \<lparr>jh_name = ''Zafiro Palace Alcudia'',
      jh_months = An_array [Month_object \<lparr>jm_label = Some (JStr ''Jun 2026''), jm_key = None,
                              jm_rooms = Some [(''Suite'', \<lparr>price_pp = Some 450\<rparr>)]\<rparr>],
      jh_roomTypes = Not_array (NBool True)\<rparr>"

section \<open>The outcomes of the fetch as the specification names them\<close>

text \<open>
  Success with data is a parsed document whose \<^verbatim>\<open>hotels\<close> is a non-empty list; success
  with empty data is a parsed document whose \<^verbatim>\<open>hotels\<close> is missing or an empty list.
\<close>

fun nonempty_list :: "json option \<Rightarrow> bool" where
  "nonempty_list (Some (JArr (x # xs))) = True"
| "nonempty_list _ = False"

fun missing_or_empty :: "json option \<Rightarrow> bool" where
  "missing_or_empty None = True"
| "missing_or_empty (Some (JArr [])) = True"
| "missing_or_empty _ = False"

fun has_hotels :: "json \<Rightarrow> bool" where
  "has_hotels (JObj kvs) = nonempty_list (map_of kvs ''hotels'')"
| "has_hotels _ = False"

fun no_hotels :: "json \<Rightarrow> bool" where
  "no_hotels (JObj kvs) = missing_or_empty (map_of kvs ''hotels'')"
| "no_hotels _ = False"

text \<open>A document as the scraper writes it, with one hotel.\<close>

definition pricing_data :: json where
  "pricing_data =
     JObj [(''hotels'', JArr [JObj [(''name'', JStr ''Zafiro Palace Alcudia''), (''stars'', JNum 5)]]),
           (''total_prices'', JNum 1), (''scraped_at'', JStr ''2026-11-02T06:00:00Z'')]"

section \<open>A polynomial enclosure of the sine\<close>

text \<open>
  The Taylor polynomial of the sine of degree 11 and the bound on its remainder; with
  them the value of \<^verbatim>\<open>rng\<close> at one index is enclosed further down.
\<close>

definition sin_poly :: "real \<Rightarrow> real" where
  "sin_poly x = x - x^3 / 6 + x^5 / 120 - x^7 / 5040 + x^9 / 362880 - x^11 / 39916800"

definition sin_err :: "real \<Rightarrow> real" where
  "sin_err x = \<bar>x\<bar> ^ 12 / 479001600"

section \<open>The generator as the specification words it\<close>

text \<open>
  The definitions of this section follow the sentences of the specification, not the
  code: the seed, the pseudo-random value, the multipliers and the price of section 4.1,
  and \<open>cheapest\<close> of section 3. They are compared with the embedding of the code
  further down. Section 4.1 asks for an algorithm that is reproducible to the bit, so
  the operations of its formula are those of the machine, with \<open>fl\<close> and \<open>msin\<close> as in
  the section on the arithmetic of the machine; the fractional part of \<open>x\<close> is \<open>x\<close> less
  its floor.
\<close>

definition spec_seed :: "string \<Rightarrow> string \<Rightarrow> nat \<Rightarrow> string \<Rightarrow> int" where
  "spec_seed hotelName airportCode durationNights boardBasis =
     (\<Sum>c \<leftarrow> hotelName @ airportCode @ show_nat durationNights @ boardBasis. of_char c)"

definition spec_frac :: "(real \<Rightarrow> real) \<Rightarrow> real \<Rightarrow> real" where
  "spec_frac fl x = fl (x - of_int \<lfloor>x\<rfloor>)"

definition spec_rand :: "(real \<Rightarrow> real) \<Rightarrow> (real \<Rightarrow> real) \<Rightarrow> int \<Rightarrow> int \<Rightarrow> real" where
  "spec_rand fl msin seed i = spec_frac fl (fl (msin (of_int (seed + i)) * fl 10000))"

definition spec_base :: "(real \<Rightarrow> real) \<Rightarrow> (real \<Rightarrow> real) \<Rightarrow> int \<Rightarrow> real" where
  "spec_base fl msin seed = fl (fl 400 + fl (spec_rand fl msin seed 1 * fl 600))"

definition spec_seasonalMultiplier :: "(real \<Rightarrow> real) \<Rightarrow> real list" where
  "spec_seasonalMultiplier fl =
     map fl [0.70, 0.65, 0.75, 0.85, 1.00, 1.25, 1.50, 1.55, 1.20, 0.90, 0.70, 0.65]"

definition spec_durationMultiplier :: "(real \<Rightarrow> real) \<Rightarrow> nat \<Rightarrow> real" where
  "spec_durationMultiplier fl n =
     fl (if n \<le> 3 then 0.5 else if n \<le> 5 then 0.7 else if n \<le> 7 then 1.0
         else if n \<le> 10 then 1.35 else 1.7)"

definition spec_board_list :: "string list" where
  "spec_board_list = [''Self Catering'', ''Bed & Breakfast'', ''Half Board'',
                      ''Full Board'', ''All Inclusive'']"

definition spec_index_of :: "'a \<Rightarrow> 'a list \<Rightarrow> nat" where
  "spec_index_of x xs = length (takeWhile (\<lambda>y. y \<noteq> x) xs)"

definition spec_boardMultiplier :: "(real \<Rightarrow> real) \<Rightarrow> string \<Rightarrow> real" where
  "spec_boardMultiplier fl boardBasis =
     fl (fl (real (spec_index_of boardBasis spec_board_list) * fl 0.12) + fl 0.85)"

definition spec_roomMultiplier :: "(real \<Rightarrow> real) \<Rightarrow> string \<rightharpoonup> real" where
  "spec_roomMultiplier fl =
     [''Standard Double'' \<mapsto> fl 1.0, ''Superior Double'' \<mapsto> fl 1.2,
      ''Sea View Double'' \<mapsto> fl 1.35, ''Family Room'' \<mapsto> fl 1.45, ''Suite'' \<mapsto> fl 1.9]"

definition spec_price ::
  "(real \<Rightarrow> real) \<Rightarrow> (real \<Rightarrow> real) \<Rightarrow> int \<Rightarrow> nat \<Rightarrow> nat \<Rightarrow> nat \<Rightarrow> string \<Rightarrow> string \<Rightarrow> nat \<Rightarrow> int" where
  "spec_price fl msin seed monthIndex i durationNights boardBasis roomType roomIndex =
     round (fl (fl (fl (fl (fl (spec_base fl msin seed * spec_seasonalMultiplier fl ! monthIndex)
                            * spec_durationMultiplier fl durationNights)
                        * spec_boardMultiplier fl boardBasis)
                    * the (spec_roomMultiplier fl roomType))
                * fl (fl 0.95 + fl (spec_rand fl msin seed (int (i * 10 + roomIndex)) * fl 0.1))))"

definition spec_cheapest :: "(string \<times> room_entry) list \<Rightarrow> int" where
  "spec_cheapest rs =
     (let ps = map price (filter available (map snd rs)) in if ps = [] then 0 else Min (set ps))"

section \<open>What the generator's loop computes\<close>

lemma run_min_Fin: "run_min ps (Fin c) = Fin (fold min ps c)"
  by (induction ps arbitrary: c) (auto simp: min_def)

lemma run_min_PosInf: "ps \<noteq> [] \<Longrightarrow> run_min ps PosInf = Fin (Min (set ps))"
  by (cases ps) (simp_all add: run_min_Fin Min.set_eq_fold del: set_simps)

lemma fold_max_0: "ps \<noteq> [] \<Longrightarrow> fold max ps (0::int) = max 0 (Max (set ps))"
proof -
  assume "ps \<noteq> []"
  have "fold max ps (0::int) = Max (set (0 # ps))"
    by (rule Max.set_eq_fold [symmetric])
  also have "\<dots> = max 0 (Max (set ps))"
    using \<open>ps \<noteq> []\<close> by simp
  finally show ?thesis .
qed

lemma update_fresh: "k \<notin> fst ` set al \<Longrightarrow> AList.update k v al = al @ [(k, v)]"
  by (induction al) auto

lemma fold_update_fresh:
  "distinct (map snd xs) \<Longrightarrow> snd ` set xs \<inter> fst ` set rs = {} \<Longrightarrow>
   fold (\<lambda>(ri, rt). AList.update rt (E ri rt)) xs rs = rs @ map (\<lambda>(ri, rt). (rt, E ri rt)) xs"
proof (induction xs arbitrary: rs)
  case Nil
  show ?case by simp
next
  case (Cons x xs)
  obtain ri rt where x: "x = (ri, rt)" by (cases x)
  from Cons.prems have fresh: "rt \<notin> fst ` set rs" by (auto simp: x)
  have "snd ` set xs \<inter> fst ` set (rs @ [(rt, E ri rt)]) = {}"
    using Cons.prems by (auto simp: x)
  moreover have "distinct (map snd xs)" using Cons.prems by simp
  ultimately show ?case
    by (simp add: x update_fresh [OF fresh] Cons.IH)
qed

lemma demo_room_step:
  "demo_room rnd d b mi i (ri, rt) (rs, ch, mx) =
     (AList.update rt (demo_entry rnd d b mi i ri rt) rs,
      (if js_lt (room_price rnd d b mi i rt ri) ch then Fin (room_price rnd d b mi i rt ri) else ch),
      max mx (room_price rnd d b mi i rt ri))"
  by (simp add: demo_room_def demo_entry_def Let_def max_def)

lemma fold_demo_room:
  "fold (demo_room rnd d b mi i) xs (rs, ch, mx) =
     (fold (\<lambda>(ri, rt). AList.update rt (demo_entry rnd d b mi i ri rt)) xs rs,
      run_min (map (\<lambda>(ri, rt). room_price rnd d b mi i rt ri) xs) ch,
      fold max (map (\<lambda>(ri, rt). room_price rnd d b mi i rt ri) xs) mx)"
proof (induction xs arbitrary: rs ch mx)
  case Nil
  show ?case by simp
next
  case (Cons x xs)
  obtain ri rt where x: "x = (ri, rt)" by (cases x)
  show ?case
    by (simp add: x demo_room_step Cons.IH max.commute)
qed

lemma rm_defined: "rt \<in> set ROOM_TYPES \<Longrightarrow> map_of rm rt \<noteq> None"
proof -
  assume "rt \<in> set ROOM_TYPES"
  moreover have "set ROOM_TYPES = fst ` set rm"
    by (simp add: rm_def ROOM_TYPES_def insert_commute)
  ultimately show ?thesis by (simp only: map_of_eq_None_iff not_not)
qed

lemma distinct_ROOM_TYPES: "distinct ROOM_TYPES"
  by (simp add: ROOM_TYPES_def)

lemma length_ROOM_TYPES: "length ROOM_TYPES = 5"
  by (simp add: ROOM_TYPES_def)

lemma demo_prices_rooms: "demo_prices rnd d b mi i = map (price \<circ> snd) (demo_rooms rnd d b mi i)"
  by (simp add: demo_prices_def demo_rooms_def demo_entry_def case_prod_unfold)

lemma demo_prices_nonempty: "demo_prices rnd d b mi i \<noteq> []"
  by (simp add: demo_prices_def ROOM_TYPES_def)

lemma demo_fold:
  "fold (demo_room rnd d b mi i) (enumerate 0 ROOM_TYPES) ([], PosInf, 0) =
     (demo_rooms rnd d b mi i,
      Fin (Min (set (demo_prices rnd d b mi i))),
      max 0 (Max (set (demo_prices rnd d b mi i))))"
proof -
  have 1: "fold (\<lambda>(ri, rt). AList.update rt (demo_entry rnd d b mi i ri rt)) (enumerate 0 ROOM_TYPES) []
           = demo_rooms rnd d b mi i"
    unfolding demo_rooms_def
    by (subst fold_update_fresh) (simp_all add: distinct_ROOM_TYPES)
  show ?thesis
    unfolding fold_demo_room 1 demo_prices_def [symmetric]
    by (simp only: run_min_PosInf [OF demo_prices_nonempty] fold_max_0 [OF demo_prices_nonempty])
qed

text \<open>The month entry of offset \<open>i\<close>, with the loop replaced by what it computes.\<close>

lemma demo_month_eq:
  "demo_month rnd now d b i =
     (let mi = (getMonth now + i) mod 12; rs = demo_rooms rnd d b mi i in
      \<lparr>month = MONTHS ! mi,
       year = getFullYear now + (if getMonth now + i \<ge> 12 then 1 else 0),
       rooms = rs,
       cheapest = Fin (Min (set (map (price \<circ> snd) rs))),
       mostExpensive = max 0 (Max (set (map (price \<circ> snd) rs))),
       avgPrice = round (real_of_int (fold (\<lambda>r a. a + price r) (map snd rs) 0)
                         / real (length ROOM_TYPES)),
       availability = show_nat (length (filter available (map snd rs)))
                      @ ''/'' @ show_nat (length ROOM_TYPES)\<rparr>)"
  unfolding demo_month_def Let_def demo_fold demo_prices_rooms
  by (simp only: prod.case)

lemma length_generateDemoData: "length (generateDemoData now hotel airport duration board) = 12"
  by (simp add: generateDemoData_def gen_months_def)

lemma nth_generateDemoData:
  "i < 12 \<Longrightarrow> generateDemoData now hotel airport duration board ! i =
     demo_month (rng (seed_of hotel airport duration board)) now duration board i"
  by (simp add: generateDemoData_def gen_months_def)

lemma rooms_demo_month:
  "rooms (demo_month rnd now d b i) = demo_rooms rnd d b ((getMonth now + i) mod 12) i"
  by (simp add: demo_month_eq Let_def)

lemma keys_demo_rooms: "map fst (demo_rooms rnd d b mi i) = ROOM_TYPES"
proof -
  have "map fst (map (\<lambda>(ri, rt). (rt, E ri rt)) xs) = map snd xs"
    for E :: "nat \<Rightarrow> string \<Rightarrow> room_entry" and xs
    by (induction xs) auto
  then have "map fst (demo_rooms rnd d b mi i) = map snd (enumerate 0 ROOM_TYPES)"
    unfolding demo_rooms_def .
  then show ?thesis by simp
qed

lemma map_of_demo_rooms:
  "ri < length ROOM_TYPES \<Longrightarrow>
   map_of (demo_rooms rnd d b mi i) (ROOM_TYPES ! ri)
     = Some (demo_entry rnd d b mi i ri (ROOM_TYPES ! ri))"
proof -
  assume ri: "ri < length ROOM_TYPES"
  have d: "distinct (map fst (demo_rooms rnd d b mi i))"
    by (simp add: keys_demo_rooms distinct_ROOM_TYPES)
  have "(ROOM_TYPES ! ri, demo_entry rnd d b mi i ri (ROOM_TYPES ! ri))
          \<in> set (demo_rooms rnd d b mi i)"
    using ri
    by (auto simp: demo_rooms_def in_set_enumerate_eq
             intro!: image_eqI [where x = "(ri, ROOM_TYPES ! ri)"])
  with d show ?thesis by (rule map_of_is_SomeI)
qed

section \<open>Availability and its index into the random stream\<close>

text \<open>
  C8, as the spec states it, also says that the index \<open>i*100 + roomIndex\<close> of the
  availability draw differs from the index \<open>i*10 + roomIndex\<close> of the price jitter of the
  same room and month. For the current month (\<open>i = 0\<close>) both are \<open>roomIndex\<close>: here for
  the room at position 3.
\<close>

theorem C8_same_index_current_month: "avail_index 0 3 = jitter_index 0 3"
  by (simp add: avail_index_def jitter_index_def)

text \<open>
  C8, amended: for every month offset \<open>i\<close> below 12 and every room position \<open>ri\<close>, the
  generator marks the room available exactly when \<open>rand(i*100 + ri) > 0.15\<close>; the index
  \<open>i*100 + ri\<close> differs from the jitter index \<open>i*10 + ri\<close> of the same room and month
  exactly when \<open>i\<close> is not 0, and for \<open>i = 0\<close> the two draws are the same one.
\<close>

theorem C8_availability_draw:
  assumes "i < 12" and "ri < length ROOM_TYPES"
  shows "map_option available
           (map_of (rooms (generateDemoData now hotel airport duration board ! i))
                   (ROOM_TYPES ! ri))
         = Some (rng (seed_of hotel airport duration board) (avail_index i ri) > 0.15)
       \<and> (avail_index i ri = jitter_index i ri \<longleftrightarrow> i = 0)"
proof
  show "map_option available
           (map_of (rooms (generateDemoData now hotel airport duration board ! i))
                   (ROOM_TYPES ! ri))
         = Some (rng (seed_of hotel airport duration board) (avail_index i ri) > 0.15)"
    using assms
    by (simp add: nth_generateDemoData rooms_demo_month map_of_demo_rooms demo_entry_def)
  show "avail_index i ri = jitter_index i ri \<longleftrightarrow> i = 0"
    by (simp add: avail_index_def jitter_index_def)
qed

theorem C8_availability_draw_witness:
  "(1::nat) < 12 \<and> (0::nat) < length ROOM_TYPES
   \<and> map_option available
       (map_of (rooms (generateDemoData \<lparr>getFullYear = 2026, getMonth = 10, getDate = 2, getTime = 0\<rparr>
                         ''Sunwing Alcudia Beach'' ''MAN'' 7 ''Half Board'' ! 1))
               (ROOM_TYPES ! 0))
     = Some (rng (seed_of ''Sunwing Alcudia Beach'' ''MAN'' 7 ''Half Board'') (avail_index 1 0) > 0.15)
   \<and> (avail_index 1 0 = jitter_index 1 0 \<longleftrightarrow> (1::nat) = 0)"
proof -
  have a: "(1::nat) < 12" by simp
  have b: "(0::nat) < length ROOM_TYPES" by (simp add: length_ROOM_TYPES)
  show ?thesis
    using a b C8_availability_draw [OF a b] by blast
qed

section \<open>The price formula\<close>

text \<open>With exact arithmetic the second embedding of the generator is the first.\<close>

lemma rng_fl_exact: "rng_fl (\<lambda>x. x) sin = rng"
  by (simp add: rng_fl_def rng_def fun_eq_iff)

lemma room_price_fl_exact: "room_price_fl (\<lambda>x. x) = room_price"
  by (simp add: room_price_fl_def room_price_def fun_eq_iff bp_fl_def bp_def sm_fl_def sm_def
      dm_fl_def dm_def bm_fl_def bm_def rm_fl_def rm_def)

lemma Math_round_div_fl_exact: "Math_round_div_fl (\<lambda>x. x) = Math_round_div"
  by (simp add: Math_round_div_fl_def Math_round_div_def fun_eq_iff)

lemma demo_room_fl_exact: "demo_room_fl (\<lambda>x. x) = demo_room"
  by (simp add: demo_room_fl_def demo_room_def fun_eq_iff room_price_fl_exact
      Math_round_div_fl_exact)

lemma generateDemoData_fl_exact: "generateDemoData_fl (\<lambda>x. x) sin = generateDemoData"
  by (simp add: generateDemoData_fl_def generateDemoData_def gen_months_fl_def gen_months_def
      demo_month_fl_def demo_month_def demo_room_fl_exact rng_fl_exact fun_eq_iff)

text \<open>The rooms the loop stores, whatever the arithmetic.\<close>

lemma demo_room_fl_step:
  "fst (demo_room_fl fl rnd d b mi i (ri, rt) (rs, ch, mx)) =
     AList.update rt (demo_entry_fl fl rnd d b mi i ri rt) rs"
  by (simp add: demo_room_fl_def demo_entry_fl_def Let_def)

lemma fold_demo_room_fl:
  "fst (fold (demo_room_fl fl rnd d b mi i) xs acc) =
     fold (\<lambda>(ri, rt). AList.update rt (demo_entry_fl fl rnd d b mi i ri rt)) xs (fst acc)"
proof (induction xs arbitrary: acc)
  case Nil
  show ?case by simp
next
  case (Cons x xs)
  obtain ri rt where x: "x = (ri, rt)" by (cases x)
  obtain rs ch mx where acc: "acc = (rs, ch, mx)" by (cases acc)
  show ?case
    by (simp add: x acc Cons.IH demo_room_fl_step)
qed

lemma rooms_demo_month_fl:
  "rooms (demo_month_fl fl rnd now d b i) =
     map (\<lambda>(ri, rt). (rt, demo_entry_fl fl rnd d b ((getMonth now + i) mod 12) i ri rt))
         (enumerate 0 ROOM_TYPES)"
proof -
  have "rooms (demo_month_fl fl rnd now d b i)
        = fst (fold (demo_room_fl fl rnd d b ((getMonth now + i) mod 12) i)
                    (enumerate 0 ROOM_TYPES) ([], PosInf, 0))"
    by (simp add: demo_month_fl_def Let_def case_prod_unfold)
  also have "\<dots> = map (\<lambda>(ri, rt). (rt, demo_entry_fl fl rnd d b ((getMonth now + i) mod 12) i ri rt))
                      (enumerate 0 ROOM_TYPES)"
    unfolding fold_demo_room_fl
    by (subst fold_update_fresh) (simp_all add: distinct_ROOM_TYPES)
  finally show ?thesis .
qed

lemma price_demo_month_fl:
  assumes "ri < length ROOM_TYPES"
  shows "map_option price (map_of (rooms (demo_month_fl fl rnd now d b i)) (ROOM_TYPES ! ri))
         = Some (room_price_fl fl rnd d b ((getMonth now + i) mod 12) i (ROOM_TYPES ! ri) ri)"
proof -
  let ?E = "demo_entry_fl fl rnd d b ((getMonth now + i) mod 12) i"
  let ?rs = "map (\<lambda>(ri, rt). (rt, ?E ri rt)) (enumerate 0 ROOM_TYPES)"
  have "map fst (map (\<lambda>(ri, rt). (rt, E ri rt)) xs) = map snd xs"
    for E :: "nat \<Rightarrow> string \<Rightarrow> room_entry" and xs
    by (induction xs) auto
  then have "map fst ?rs = map snd (enumerate 0 ROOM_TYPES)" .
  then have d: "distinct (map fst ?rs)"
    by (simp add: distinct_ROOM_TYPES)
  have "(ROOM_TYPES ! ri, ?E ri (ROOM_TYPES ! ri)) \<in> set ?rs"
    using assms
    by (auto simp: in_set_enumerate_eq intro!: image_eqI [where x = "(ri, ROOM_TYPES ! ri)"])
  with d have "map_of ?rs (ROOM_TYPES ! ri) = Some (?E ri (ROOM_TYPES ! ri))"
    by (rule map_of_is_SomeI)
  then show ?thesis
    by (simp add: rooms_demo_month_fl demo_entry_fl_def)
qed

text \<open>The parts of the formula, in the code and in the specification.\<close>

lemma fold_add_sum_list: "fold (\<lambda>c a. a + f c) xs (a0::nat) = a0 + sum_list (map f xs)"
  by (induction xs arbitrary: a0) auto

lemma int_sum_chars: "int (\<Sum>c\<leftarrow>xs. of_char c) = (\<Sum>c\<leftarrow>xs. of_char c)"
  by (induction xs) (auto simp: of_nat_of_char)

lemma seed_of_spec: "int (seed_of h a d b) = spec_seed h a d b"
  unfolding seed_of_def spec_seed_def fold_add_sum_list
  by (simp only: int_sum_chars add_0)

lemma rng_fl_spec: "rng_fl fl msin seed i = spec_rand fl msin (int seed) i"
  by (simp add: rng_fl_def spec_rand_def spec_frac_def Let_def)

lemma bp_fl_spec: "bp_fl fl (rng_fl fl msin seed) = spec_base fl msin (int seed)"
  by (simp add: bp_fl_def spec_base_def rng_fl_spec)

lemma sm_fl_spec: "sm_fl fl = spec_seasonalMultiplier fl"
  by (simp add: sm_fl_def spec_seasonalMultiplier_def)

lemma dm_fl_spec: "dm_fl fl n = spec_durationMultiplier fl n"
  by (simp add: dm_fl_def spec_durationMultiplier_def)

lemma bm_fl_spec: "board \<in> set BOARD_TYPES \<Longrightarrow> bm_fl fl board = spec_boardMultiplier fl board"
  by (auto simp: bm_fl_def spec_boardMultiplier_def BOARD_TYPES_def spec_board_list_def
                 spec_index_of_def)

lemma rm_fl_spec: "rt \<in> set ROOM_TYPES \<Longrightarrow> map_of (rm_fl fl) rt = spec_roomMultiplier fl rt"
  by (auto simp: rm_fl_def spec_roomMultiplier_def ROOM_TYPES_def)

lemma room_price_fl_spec:
  assumes "board \<in> set BOARD_TYPES" and "rt \<in> set ROOM_TYPES"
  shows "room_price_fl fl (rng_fl fl msin seed) duration board mi i rt ri
         = spec_price fl msin (int seed) mi i duration board rt ri"
  unfolding room_price_fl_def spec_price_def
  by (simp only: bp_fl_spec sm_fl_spec dm_fl_spec bm_fl_spec [OF assms(1)]
                 rm_fl_spec [OF assms(2)] rng_fl_spec jitter_index_def)

text \<open>
  C6: for every well-typed input (a board basis of the board list, a month offset below
  12, a room position below 5), the price the generator stores for the room is
  \<open>round(base * seasonalMultiplier[monthIndex] * durationMultiplier * boardMultiplier *
  roomMultiplier * (0.95 + rand(i*10 + roomIndex) * 0.1))\<close> with the base, the seed and
  \<open>rand\<close> of the specification, the operations of the formula being those of the
  machine: the equality holds whatever the rounding \<open>fl\<close> of the doubles and the
  implementation \<open>msin\<close> of the sine are.
\<close>

theorem C6_price_formula:
  assumes "board \<in> set BOARD_TYPES" and "i < 12" and "ri < length ROOM_TYPES"
  shows "map_option price
           (map_of (rooms (generateDemoData_fl fl msin now hotel airport duration board ! i))
                   (ROOM_TYPES ! ri))
         = Some (spec_price fl msin (spec_seed hotel airport duration board)
                            ((getMonth now + i) mod 12) i duration board (ROOM_TYPES ! ri) ri)"
proof -
  have rt: "ROOM_TYPES ! ri \<in> set ROOM_TYPES" using assms(3) by simp
  have "generateDemoData_fl fl msin now hotel airport duration board ! i
        = demo_month_fl fl (rng_fl fl msin (seed_of hotel airport duration board)) now duration board i"
    using assms(2) by (simp add: generateDemoData_fl_def gen_months_fl_def)
  then show ?thesis
    by (simp only: price_demo_month_fl [OF assms(3)] room_price_fl_spec [OF assms(1) rt]
                   seed_of_spec)
qed

theorem C6_price_formula_witness:
  "''Half Board'' \<in> set BOARD_TYPES \<and> (3::nat) < 12 \<and> (4::nat) < length ROOM_TYPES
   \<and> (\<forall>fl msin.
         map_option price
           (map_of (rooms (generateDemoData_fl fl msin nov02
                             ''Sunwing Alcudia Beach'' ''MAN'' 7 ''Half Board'' ! 3))
                   (ROOM_TYPES ! 4))
         = Some (spec_price fl msin 3143 1 3 7 ''Half Board'' ''Sea View Double'' 4))
   \<and> map_option price
        (map_of (rooms (generateDemoData nov02 ''Sunwing Alcudia Beach'' ''MAN'' 7 ''Half Board'' ! 3))
                (ROOM_TYPES ! 4))
      = Some (spec_price (\<lambda>x. x) sin 3143 1 3 7 ''Half Board'' ''Sea View Double'' 4)"
proof -
  have a: "''Half Board'' \<in> set BOARD_TYPES" by (simp add: BOARD_TYPES_def)
  have b: "(3::nat) < 12" by simp
  have c: "(4::nat) < length ROOM_TYPES" by (simp add: length_ROOM_TYPES)
  have s: "spec_seed ''Sunwing Alcudia Beach'' ''MAN'' 7 ''Half Board'' = 3143"
    by (simp add: spec_seed_def show_nat.simps)
  have r: "ROOM_TYPES ! 4 = ''Sea View Double''" by (simp add: ROOM_TYPES_def)
  have m: "(getMonth nov02 + 3) mod 12 = 1" by (simp add: nov02_def)
  have g: "map_option price
             (map_of (rooms (generateDemoData_fl fl msin nov02
                               ''Sunwing Alcudia Beach'' ''MAN'' 7 ''Half Board'' ! 3))
                     (ROOM_TYPES ! 4))
           = Some (spec_price fl msin 3143 1 3 7 ''Half Board'' ''Sea View Double'' 4)"
    for fl msin
    using C6_price_formula [OF a b c, of fl msin nov02 "''Sunwing Alcudia Beach''" "''MAN''" 7]
    by (simp only: s r m)
  have e: "map_option price
             (map_of (rooms (generateDemoData nov02 ''Sunwing Alcudia Beach'' ''MAN'' 7 ''Half Board'' ! 3))
                     (ROOM_TYPES ! 4))
           = Some (spec_price (\<lambda>x. x) sin 3143 1 3 7 ''Half Board'' ''Sea View Double'' 4)"
    using g [of "\<lambda>x. x" sin] by (simp only: generateDemoData_fl_exact)
  show ?thesis
    using a b c g e by (simp only: simp_thms)
qed

section \<open>Bounds on the prices\<close>

lemma rng_range: "0 \<le> rng seed k \<and> rng seed k < 1"
  unfolding rng_def Let_def by linarith

lemma sm_ge: "mi < 12 \<Longrightarrow> 0.65 \<le> sm ! mi"
proof -
  assume "mi < 12"
  moreover have "length sm = 12" by (simp add: sm_def)
  ultimately have "sm ! mi \<in> set sm" by (simp only: nth_mem)
  moreover have "\<forall>x \<in> set sm. 0.65 \<le> x" by (simp add: sm_def)
  ultimately show ?thesis by blast
qed

lemma dm_ge: "0.5 \<le> dm d"
  by (simp add: dm_def)

lemma indexOf_ge: "- 1 \<le> indexOf xs x"
  by (induction xs) (auto simp: Let_def)

lemma bm_ge: "0.73 \<le> bm b"
proof -
  have "- 1 \<le> real_of_int (indexOf BOARD_TYPES b)"
    using indexOf_ge [of BOARD_TYPES b] by linarith
  then show ?thesis by (simp add: bm_def)
qed

lemma bp_ge: "0 \<le> rnd 1 \<Longrightarrow> 400 \<le> bp rnd"
  by (simp add: bp_def)

lemma mult_ge: "a \<le> x \<Longrightarrow> b \<le> y \<Longrightarrow> 0 \<le> a \<Longrightarrow> 0 \<le> b \<Longrightarrow> a * b \<le> x * (y::real)"
  by (rule mult_mono) auto

lemma base_ge:
  assumes "0 \<le> rnd 1" and "mi < 12"
  shows "94.9 \<le> bp rnd * sm ! mi * dm d * bm b"
proof -
  have 0: "400 \<le> bp rnd" using assms(1) by (simp add: bp_def)
  have 1: "260 \<le> bp rnd * sm ! mi"
    using mult_ge [OF 0 sm_ge [OF assms(2)]] by simp
  have 2: "130 \<le> bp rnd * sm ! mi * dm d"
    using mult_ge [OF 1 dm_ge] by simp
  show ?thesis
    using mult_ge [OF 2 bm_ge] by simp
qed

lemma rm_values:
  "the (map_of rm ''Standard Double'') = 1"
  "rt \<in> set ROOM_TYPES \<Longrightarrow> rt \<noteq> ''Standard Double'' \<Longrightarrow> 1.2 \<le> the (map_of rm rt)"
  "rt \<in> set ROOM_TYPES \<Longrightarrow> 1 \<le> the (map_of rm rt)"
  by (auto simp: rm_def ROOM_TYPES_def)

lemma room_price_pos:
  assumes "0 \<le> rnd 1" and "0 \<le> rnd (jitter_index i ri)" and "mi < 12" and "rt \<in> set ROOM_TYPES"
  shows "90 \<le> room_price rnd d b mi i rt ri"
proof -
  let ?B = "bp rnd * sm ! mi * dm d * bm b"
  have B: "94.9 \<le> ?B" using assms(1,3) by (rule base_ge)
  have 1: "94.9 \<le> ?B * the (map_of rm rt)"
    using mult_ge [OF B rm_values(3) [OF assms(4)]] by simp
  have j: "0.95 \<le> 0.95 + rnd (jitter_index i ri) * 0.1" using assms(2) by simp
  have 2: "90 \<le> ?B * the (map_of rm rt) * (0.95 + rnd (jitter_index i ri) * 0.1)"
    using mult_ge [OF 1 j] by simp
  have "round (90::real) \<le> room_price rnd d b mi i rt ri"
    unfolding room_price_def using 2 by (rule round_mono)
  then show ?thesis by simp
qed


lemma round_less_if_add_1: "x + 1 \<le> y \<Longrightarrow> round x < round (y::real)"
proof -
  assume "x + 1 \<le> y"
  then have "round (x + 1) \<le> round y" by (rule round_mono)
  moreover have "round (x + 1) = round x + 1"
  proof -
    have "x + 1 + 1 / 2 = (x + 1 / 2) + of_int 1" by simp
    then show ?thesis unfolding round_def by (simp only: floor_add_int [symmetric])
  qed
  ultimately show ?thesis by simp
qed

lemma standard_double_cheaper:
  assumes "0 \<le> rnd 1" and "rnd (jitter_index i 0) < 1" and "0 \<le> rnd (jitter_index i ri)"
    and "mi < 12" and "rt \<in> set ROOM_TYPES" and "rt \<noteq> ''Standard Double''"
  shows "room_price rnd d b mi i ''Standard Double'' 0 < room_price rnd d b mi i rt ri"
proof -
  let ?B = "bp rnd * sm ! mi * dm d * bm b"
  let ?j0 = "0.95 + rnd (jitter_index i 0) * 0.1"
  let ?jk = "0.95 + rnd (jitter_index i ri) * 0.1"
  let ?m = "the (map_of rm rt)"
  have B: "94.9 \<le> ?B" using assms(1,4) by (rule base_ge)
  have "?B * ?j0 \<le> ?B * 1.05"
    by (rule mult_left_mono) (use B assms(2) in simp_all)
  then have x0: "?B * 1 * ?j0 \<le> ?B * 1.05" by simp
  have "1.2 * 0.95 \<le> ?m * ?jk"
    by (rule mult_ge [OF rm_values(2) [OF assms(5,6)]]) (use assms(3) in simp_all)
  then have "?B * (1.2 * 0.95) \<le> ?B * (?m * ?jk)"
    by (rule mult_left_mono) (use B in simp)
  then have xk: "?B * 1.14 \<le> ?B * ?m * ?jk" by (simp add: mult.assoc)
  have "94.9 \<le> B \<Longrightarrow> B * 1.05 + 1 \<le> B * 1.14" for B :: real by simp
  from this [OF B] have "?B * 1.05 + 1 \<le> ?B * 1.14" .
  with x0 xk have "?B * 1 * ?j0 + 1 \<le> ?B * ?m * ?jk" by linarith
  then show ?thesis
    unfolding room_price_def rm_values(1) by (rule round_less_if_add_1)
qed


lemma enumerate_ROOM_TYPES_D:
  assumes "(ri, rt) \<in> set (enumerate 0 ROOM_TYPES)"
  shows "rt \<in> set ROOM_TYPES" and "rt = ''Standard Double'' \<longleftrightarrow> ri = 0"
proof -
  from assms have ri: "ri < length ROOM_TYPES" and rt: "rt = ROOM_TYPES ! ri"
    by (auto simp: in_set_enumerate_eq)
  show "rt \<in> set ROOM_TYPES" using ri rt by simp
  have 0: "ROOM_TYPES ! 0 = ''Standard Double''" by (simp add: ROOM_TYPES_def)
  have "ROOM_TYPES ! ri = ROOM_TYPES ! 0 \<longleftrightarrow> ri = 0"
    using ri by (simp add: nth_eq_iff_index_eq [OF distinct_ROOM_TYPES] length_ROOM_TYPES)
  then show "rt = ''Standard Double'' \<longleftrightarrow> ri = 0" by (simp add: rt 0)
qed

lemma standard_in_enumerate: "(0, ''Standard Double'') \<in> set (enumerate 0 ROOM_TYPES)"
  by (simp add: ROOM_TYPES_def)

lemma Min_demo_prices:
  assumes "\<forall>k. 0 \<le> rnd k \<and> rnd k < 1" and "mi < 12"
  shows "Min (set (demo_prices rnd d b mi i)) = room_price rnd d b mi i ''Standard Double'' 0"
proof (rule Min_eqI)
  show "finite (set (demo_prices rnd d b mi i))" by simp
  show "room_price rnd d b mi i ''Standard Double'' 0 \<in> set (demo_prices rnd d b mi i)"
    unfolding demo_prices_def using standard_in_enumerate by force
  fix y assume "y \<in> set (demo_prices rnd d b mi i)"
  then obtain ri rt where m: "(ri, rt) \<in> set (enumerate 0 ROOM_TYPES)"
    and y: "y = room_price rnd d b mi i rt ri"
    unfolding demo_prices_def by auto
  show "room_price rnd d b mi i ''Standard Double'' 0 \<le> y"
  proof (cases "rt = ''Standard Double''")
    case True
    with enumerate_ROOM_TYPES_D(2) [OF m] show ?thesis by (simp add: y)
  next
    case False
    have "room_price rnd d b mi i ''Standard Double'' 0 < room_price rnd d b mi i rt ri"
      by (rule standard_double_cheaper) (use assms enumerate_ROOM_TYPES_D(1) [OF m] False in auto)
    then show ?thesis by (simp add: y)
  qed
qed

lemma available_prices_above:
  assumes "\<forall>k. 0 \<le> rnd k \<and> rnd k < 1" and "mi < 12" and "rnd (avail_index i 0) \<le> 0.15"
    and "p \<in> set (map price (filter available (map snd (demo_rooms rnd d b mi i))))"
  shows "room_price rnd d b mi i ''Standard Double'' 0 < p"
proof -
  from assms(4) obtain ri rt where m: "(ri, rt) \<in> set (enumerate 0 ROOM_TYPES)"
    and a: "available (demo_entry rnd d b mi i ri rt)"
    and p: "p = price (demo_entry rnd d b mi i ri rt)"
    unfolding demo_rooms_def by auto
  have "ri \<noteq> 0"
  proof
    assume "ri = 0"
    with a assms(3) show False by (simp add: demo_entry_def)
  qed
  with enumerate_ROOM_TYPES_D(2) [OF m] have ne: "rt \<noteq> ''Standard Double''" by simp
  have "room_price rnd d b mi i ''Standard Double'' 0 < room_price rnd d b mi i rt ri"
    by (rule standard_double_cheaper) (use assms enumerate_ROOM_TYPES_D(1) [OF m] ne in auto)
  then show ?thesis by (simp add: p demo_entry_def)
qed

lemma cheapest_demo_month:
  "cheapest (demo_month rnd now d b i)
     = Fin (Min (set (demo_prices rnd d b ((getMonth now + i) mod 12) i)))"
  unfolding demo_month_eq Let_def demo_prices_rooms
  by (simp only: month_entry.select_convs)

lemma demo_month_cheapest_diverges:
  assumes "\<forall>k. 0 \<le> rnd k \<and> rnd k < 1" and "rnd (avail_index i 0) \<le> 0.15"
  shows "cheapest (demo_month rnd now d b i)
           = Fin (room_price rnd d b ((getMonth now + i) mod 12) i ''Standard Double'' 0)"
    and "room_price rnd d b ((getMonth now + i) mod 12) i ''Standard Double'' 0
           \<noteq> spec_cheapest (rooms (demo_month rnd now d b i))"
proof -
  let ?mi = "(getMonth now + i) mod 12"
  let ?p0 = "room_price rnd d b ?mi i ''Standard Double'' 0"
  have mi: "?mi < 12" by simp
  show "cheapest (demo_month rnd now d b i) = Fin ?p0"
    by (simp only: cheapest_demo_month Min_demo_prices [OF assms(1) mi])
  let ?ps = "map price (filter available (map snd (demo_rooms rnd d b ?mi i)))"
  have above: "\<forall>p \<in> set ?ps. ?p0 < p"
    using available_prices_above [OF assms(1) mi assms(2)] by blast
  have pos: "90 \<le> ?p0"
    by (rule room_price_pos) (use assms(1) in \<open>auto simp: ROOM_TYPES_def\<close>)
  show "?p0 \<noteq> spec_cheapest (rooms (demo_month rnd now d b i))"
  proof (cases "?ps = []")
    case True
    then show ?thesis using pos by (simp add: spec_cheapest_def rooms_demo_month)
  next
    case False
    then have "set ?ps \<noteq> {}" by (simp only: set_empty not_False_eq_True)
    then have "Min (set ?ps) \<in> set ?ps" by (rule Min_in [OF finite_set])
    with above have "?p0 < Min (set ?ps)" by blast
    with False show ?thesis by (simp add: spec_cheapest_def rooms_demo_month Let_def)
  qed
qed

section \<open>The normalizer: exceptions and the shape of the result\<close>

lemma map_throw_Inr_D:
  "map_throw f xs = Inr ys \<Longrightarrow> list_all2 (\<lambda>x y. f x = Inr y) xs ys"
  by (induction xs arbitrary: ys) (auto split: sum.splits)

lemma map_throw_length: "map_throw f xs = Inr ys \<Longrightarrow> length ys = length xs"
  by (drule map_throw_Inr_D) (simp add: list_all2_lengthD)

lemma map_throw_set:
  "map_throw f xs = Inr ys \<Longrightarrow> y \<in> set ys \<Longrightarrow> \<exists>x \<in> set xs. f x = Inr y"
  by (induction xs arbitrary: ys) (auto split: sum.splits)

lemma map_throw_Inl: "map_throw f xs = Inl e \<Longrightarrow> \<exists>x \<in> set xs. f x = Inl e"
  by (induction xs) (auto split: sum.splits)

lemma map_throw_total:
  "(\<forall>x \<in> set xs. \<exists>y. f x = Inr y) \<Longrightarrow> \<exists>ys. map_throw f xs = Inr ys"
  by (induction xs) (auto split: sum.splits)

lemma buildLiveMonths_eq:
  "buildLiveMonths h ap d =
     (case h_months h of
        None \<Rightarrow> Inr None
      | Some ms \<Rightarrow>
          if ms = [] \<or> active_room_types h = [] then Inr None
          else (case map_throw (live_month (active_room_types h) d) ms of
                  Inl e \<Rightarrow> Inl e
                | Inr ms' \<Rightarrow>
                    if filter (\<lambda>m. js_gt0 (cheapest m)) ms' = [] then Inr None
                    else Inr (Some \<lparr>months = filter (\<lambda>m. js_gt0 (cheapest m)) ms',
                                     roomTypes = active_room_types h\<rparr>)))"
  by (simp add: buildLiveMonths_def Let_def split: option.splits sum.splits)

lemmas live_eval = buildLiveMonths_def active_room_types_def scraped_month_def live_month_def
  live_room_def raw_price_def Math_round_div_def label_of_def year_of_def parseInt_def is_ws_def
  digit_val_def show_nat.simps round_def Let_def ROOM_TYPES_def

text \<open>On a record of the scraper's shapes the second embedding of the normalizer is the first.\<close>

lemma length_field_truthy: "length_field v \<Longrightarrow> truthy_field v"
proof (cases v)
  case (An_array xs)
  then show ?thesis by simp
next
  case (Not_array w)
  assume "length_field v"
  then show ?thesis unfolding Not_array by (cases w) simp_all
qed

lemma json_label_of:
  "json_label \<lparr>jm_label = map_option JStr (month_label m),
               jm_key = map_option JStr (month_key m), jm_rooms = r\<rparr>
   = Inr (label_of m)"
  by (cases "month_label m"; cases "month_key m") (simp_all add: json_label_def label_of_def)

lemma live_month_json_of: "live_month_json rt d (json_month_of m) = live_month rt d m"
  by (simp add: live_month_json_def json_month_of_def live_month_def json_label_of
      month_entry_of_def Let_def split: list.splits option.splits sum.splits prod.splits)

lemma map_throw_map: "map_throw f (map g xs) = map_throw (f \<circ> g) xs"
  by (induction xs) (simp_all split: sum.splits)

lemma buildLiveMonths_json_of:
  "buildLiveMonths_json (json_hotel_of h) ap d = buildLiveMonths h ap d"
proof -
  have "live_month_json rt d \<circ> json_month_of = live_month rt d" for rt
    by (simp add: fun_eq_iff live_month_json_of)
  then show ?thesis
    by (simp add: buildLiveMonths_json_def json_hotel_of_def buildLiveMonths_def room_types_of_def
        active_room_types_def map_throw_map Let_def ROOM_TYPES_def split: option.splits)
qed

text \<open>The exceptions of the normalizer.\<close>

lemma truthy_string_or_falsy: "truthy v \<Longrightarrow> string_or_falsy v \<longleftrightarrow> (\<exists>s. v = Some (JStr s))"
  by (cases v rule: truthy.cases) simp_all

lemma json_label_Inl:
  "(\<exists>e. json_label m = Inl e)
     \<longleftrightarrow> \<not> (string_or_falsy (jm_label m) \<and> (truthy (jm_label m) \<or> string_or_falsy (jm_key m)))"
proof (cases "truthy (jm_label m)")
  case True
  then show ?thesis
    by (auto simp: json_label_def truthy_string_or_falsy split: option.splits json.splits)
next
  case False
  then have l: "string_or_falsy (jm_label m)"
    by (cases "jm_label m" rule: truthy.cases) simp_all
  show ?thesis
  proof (cases "truthy (jm_key m)")
    case True
    then show ?thesis
      using False l
      by (auto simp: json_label_def truthy_string_or_falsy split: option.splits json.splits)
  next
    case k: False
    then have "string_or_falsy (jm_key m)"
      by (cases "jm_key m" rule: truthy.cases) simp_all
    then show ?thesis
      using False k l by (simp add: json_label_def)
  qed
qed

lemma live_month_json_Inl:
  "rt \<noteq> [] \<Longrightarrow> (\<exists>e. live_month_json rt d mv = Inl e) \<longleftrightarrow> \<not> month_ok mv"
proof (cases mv)
  case (Month_object m)
  assume "rt \<noteq> []"
  then obtain r rs where rt: "rt = r # rs" by (cases rt) auto
  show ?thesis
  proof (cases "jm_rooms m")
    case None
    then show ?thesis by (simp add: live_month_json_def month_ok_def Month_object rt)
  next
    case (Some rms)
    have "(\<exists>e. live_month_json rt d mv = Inl e) \<longleftrightarrow> (\<exists>e. json_label m = Inl e)"
      by (simp add: live_month_json_def Month_object rt Some split: sum.splits)
    then show ?thesis
      by (simp add: json_label_Inl month_ok_def Month_object Some)
  qed
next
  case Month_null
  then show ?thesis by (simp add: live_month_json_def month_ok_def)
next
  case Month_other
  assume "rt \<noteq> []"
  then show ?thesis
    using Month_other by (simp add: live_month_json_def month_ok_def split: list.splits)
qed

lemma live_month_json_error: "live_month_json rt d mv = Inl e \<Longrightarrow> e = TypeError"
  by (cases mv)
     (auto simp: live_month_json_def json_label_def
           split: list.splits option.splits sum.splits json.splits if_splits)

lemma map_throw_Inl_iff: "(\<exists>e. map_throw f xs = Inl e) \<longleftrightarrow> (\<exists>x \<in> set xs. \<exists>e. f x = Inl e)"
  by (induction xs) (auto split: sum.splits)

lemma buildLiveMonths_json_throws:
  "(\<exists>e. buildLiveMonths_json h ap d = Inl e)
     \<longleftrightarrow> length_field (jh_months h) \<and> length_field (room_types_of h) \<and> \<not> well_formed h"
proof (cases "length_field (jh_months h) \<and> length_field (room_types_of h)")
  case False
  then show ?thesis by (auto simp: buildLiveMonths_json_def Let_def)
next
  case True
  then have t: "truthy_field (jh_months h)" by (simp add: length_field_truthy)
  show ?thesis
  proof (cases "jh_months h")
    case (Not_array v)
    then show ?thesis
      using True t by (simp add: buildLiveMonths_json_def Let_def well_formed_def)
  next
    case ms: (An_array ms)
    show ?thesis
    proof (cases "room_types_of h")
      case (Not_array v)
      then show ?thesis
        using True t ms by (simp add: buildLiveMonths_json_def Let_def well_formed_def)
    next
      case rs: (An_array rs)
      from True rs have ne: "rs \<noteq> []" by simp
      have "(\<exists>e. map_throw (live_month_json rs d) ms = Inl e) \<longleftrightarrow> \<not> list_all month_ok ms"
        unfolding map_throw_Inl_iff by (simp add: live_month_json_Inl [OF ne] list_all_iff)
      then show ?thesis
        using True t ms rs
        by (auto simp: buildLiveMonths_json_def Let_def well_formed_def split: sum.splits)
    qed
  qed
qed

lemma buildLiveMonths_json_error: "buildLiveMonths_json h ap d = Inl e \<Longrightarrow> e = TypeError"
  by (auto simp: buildLiveMonths_json_def Let_def split: if_splits array_field.splits sum.splits
      dest!: map_throw_Inl live_month_json_error)

lemma buildLiveMonths_json_all_dropped:
  assumes "jh_months h = An_array ms" and "room_types_of h = An_array rs"
    and "\<And>m. m \<in> set ms \<Longrightarrow> \<exists>e. live_month_json rs d m = Inr e \<and> cheapest e = Fin 0"
  shows "buildLiveMonths_json h ap d = Inr None"
proof -
  obtain ms' where ms': "map_throw (live_month_json rs d) ms = Inr ms'"
    using map_throw_total [of ms "live_month_json rs d"] assms(3) by blast
  have "\<not> js_gt0 (cheapest e)" if "e \<in> set ms'" for e
  proof -
    from map_throw_set [OF ms' that] obtain m
      where "m \<in> set ms" and "live_month_json rs d m = Inr e" by blast
    with assms(3) have "cheapest e = Fin 0" by fastforce
    then show ?thesis by simp
  qed
  then have "filter (\<lambda>m. js_gt0 (cheapest m)) ms' = []" by (simp add: filter_empty_conv)
  then show ?thesis by (simp add: buildLiveMonths_json_def assms(1,2) ms' Let_def)
qed

text \<open>
  C2, as the spec states it, says that the normalizer never raises an exception on a
  structurally invalid input. A month entry without a \<^verbatim>\<open>rooms\<close> object is such an input,
  and \<^verbatim>\<open>m.rooms[r]\<close> throws on it.
\<close>

theorem C2_throws_without_rooms: "buildLiveMonths hotel_no_rooms ''MAN'' 7 = Inl TypeError"
  by (simp add: buildLiveMonths_def hotel_no_rooms_def live_month_def active_room_types_def)

text \<open>
  C2, amended: the normalizer returns null when the hotel record has no months (the field
  is missing, falsy or without a truthy length, as an empty list is), when the room-type
  list in force has no truthy length (an empty list), and when every month entry is
  dropped by the filter step (its cheapest is 0). It raises an exception, always a
  \<^verbatim>\<open>TypeError\<close>, exactly when both lists pass the length test and the months or the room
  types are not an array, or some month entry is not an object, has no \<^verbatim>\<open>rooms\<close>
  object, or has a truthy label (\<^verbatim>\<open>month_label\<close>, or \<^verbatim>\<open>month_key\<close> under a falsy
  \<^verbatim>\<open>month_label\<close>) that is not a string. This is for records whose room-type names
  are strings and whose \<^verbatim>\<open>rooms\<close> objects hold rooms with a numeric or missing price.
\<close>

theorem C2_null_or_TypeError:
  "(\<not> length_field (jh_months h) \<or> \<not> length_field (room_types_of h)
      \<longrightarrow> buildLiveMonths_json h ap d = Inr None)
   \<and> ((\<exists>ms rs. jh_months h = An_array ms \<and> room_types_of h = An_array rs
          \<and> (\<forall>m \<in> set ms. \<exists>e. live_month_json rs d m = Inr e \<and> cheapest e = Fin 0))
      \<longrightarrow> buildLiveMonths_json h ap d = Inr None)
   \<and> ((\<exists>e. buildLiveMonths_json h ap d = Inl e)
      \<longleftrightarrow> length_field (jh_months h) \<and> length_field (room_types_of h) \<and> \<not> well_formed h)
   \<and> (\<forall>e. buildLiveMonths_json h ap d = Inl e \<longrightarrow> e = TypeError)"
proof (intro conjI impI allI)
  assume "\<not> length_field (jh_months h) \<or> \<not> length_field (room_types_of h)"
  then show "buildLiveMonths_json h ap d = Inr None"
    by (auto simp: buildLiveMonths_json_def Let_def)
next
  assume "\<exists>ms rs. jh_months h = An_array ms \<and> room_types_of h = An_array rs
          \<and> (\<forall>m \<in> set ms. \<exists>e. live_month_json rs d m = Inr e \<and> cheapest e = Fin 0)"
  then show "buildLiveMonths_json h ap d = Inr None"
    using buildLiveMonths_json_all_dropped by blast
next
  show "(\<exists>e. buildLiveMonths_json h ap d = Inl e)
      \<longleftrightarrow> length_field (jh_months h) \<and> length_field (room_types_of h) \<and> \<not> well_formed h"
    by (rule buildLiveMonths_json_throws)
next
  fix e assume "buildLiveMonths_json h ap d = Inl e"
  then show "e = TypeError" by (rule buildLiveMonths_json_error)
qed

theorem C2_null_or_TypeError_witness:
  "\<not> length_field (room_types_of hotel_types_true)
   \<and> buildLiveMonths_json hotel_types_true ''MAN'' 10 = Inr None
   \<and> buildLiveMonths_json (json_hotel_of (hotel_suite_450\<lparr>h_roomTypes := Some []\<rparr>)) ''MAN'' 10
       = Inr None
   \<and> buildLiveMonths_json (json_hotel_of hotel_suite_0) ''MAN'' 10 = Inr None
   \<and> buildLiveMonths_json hotel_numeric_label ''MAN'' 10 = Inl TypeError
   \<and> buildLiveMonths_json hotel_months_text ''MAN'' 10 = Inl TypeError
   \<and> (\<exists>r. buildLiveMonths_json (json_hotel_of hotel_suite_450) ''MAN'' 10 = Inr r)"
proof -
  have 1: "\<not> length_field (room_types_of hotel_types_true)"
    by (simp add: hotel_types_true_def room_types_of_def)
  have 2: "\<exists>ms rs. jh_months (json_hotel_of hotel_suite_0) = An_array ms
             \<and> room_types_of (json_hotel_of hotel_suite_0) = An_array rs
             \<and> (\<forall>m \<in> set ms. \<exists>e. live_month_json rs 10 m = Inr e \<and> cheapest e = Fin 0)"
    by (simp add: json_hotel_of_def hotel_suite_0_def room_types_of_def live_month_json_of live_eval)
  have 3: "length_field (jh_months hotel_numeric_label)
           \<and> length_field (room_types_of hotel_numeric_label) \<and> \<not> well_formed hotel_numeric_label"
    by (simp add: hotel_numeric_label_def room_types_of_def well_formed_def month_ok_def)
  have 4: "length_field (jh_months hotel_months_text)
           \<and> length_field (room_types_of hotel_months_text) \<and> \<not> well_formed hotel_months_text"
    by (simp add: hotel_months_text_def room_types_of_def well_formed_def)
  have 5: "well_formed (json_hotel_of hotel_suite_450)"
    by (simp add: json_hotel_of_def hotel_suite_450_def room_types_of_def well_formed_def
        month_ok_def json_month_of_def scraped_month_def)
  note a = C2_null_or_TypeError [of hotel_types_true "''MAN''" 10]
  have c1: "buildLiveMonths_json hotel_types_true ''MAN'' 10 = Inr None"
    using 1 a by (simp only: simp_thms)
  have 0: "\<not> length_field (room_types_of (json_hotel_of (hotel_suite_450\<lparr>h_roomTypes := Some []\<rparr>)))"
    by (simp add: json_hotel_of_def room_types_of_def)
  note z = C2_null_or_TypeError [of "json_hotel_of (hotel_suite_450\<lparr>h_roomTypes := Some []\<rparr>)" "''MAN''" 10]
  have c0: "buildLiveMonths_json (json_hotel_of (hotel_suite_450\<lparr>h_roomTypes := Some []\<rparr>)) ''MAN'' 10
            = Inr None"
    using 0 z by (simp only: simp_thms)
  note b = C2_null_or_TypeError [of "json_hotel_of hotel_suite_0" "''MAN''" 10]
  have c2: "buildLiveMonths_json (json_hotel_of hotel_suite_0) ''MAN'' 10 = Inr None"
    using 2 b by (simp only: simp_thms)
  note c = C2_null_or_TypeError [of hotel_numeric_label "''MAN''" 10]
  have c3: "buildLiveMonths_json hotel_numeric_label ''MAN'' 10 = Inl TypeError"
    using 3 c by blast
  note d = C2_null_or_TypeError [of hotel_months_text "''MAN''" 10]
  have c4: "buildLiveMonths_json hotel_months_text ''MAN'' 10 = Inl TypeError"
    using 4 d by blast
  note e = C2_null_or_TypeError [of "json_hotel_of hotel_suite_450" "''MAN''" 10]
  have "\<not> (\<exists>e. buildLiveMonths_json (json_hotel_of hotel_suite_450) ''MAN'' 10 = Inl e)"
    using 5 e by (simp only: simp_thms)
  then have c5: "\<exists>r. buildLiveMonths_json (json_hotel_of hotel_suite_450) ''MAN'' 10 = Inr r"
    by (cases "buildLiveMonths_json (json_hotel_of hotel_suite_450) ''MAN'' 10") simp_all
  show ?thesis
    using 1 c1 c0 c2 c3 c4 c5 by (simp only: simp_thms)
qed

section \<open>The normalizer: prices and availability of a kept month\<close>

lemma set_update_subset: "set (AList.update k v al) \<subseteq> insert (k, v) (set al)"
  by (induction al) auto

lemma live_inv_init: "live_inv ([], None, 0)"
  by (simp add: live_inv_def)

lemma live_inv_I:
  assumes "\<And>k e. (k, e) \<in> set rms \<Longrightarrow>
             (if available e then (case ch of None \<Rightarrow> False | Some c \<Rightarrow> round c \<le> price e)
              else price e = 0)"
  shows "live_inv (rms, ch, mx)"
  using assms by (auto simp: live_inv_def list_all_iff)

lemma live_inv_D:
  assumes "live_inv (rms, ch, mx)" and "(k, e) \<in> set rms"
  shows "if available e then (case ch of None \<Rightarrow> False | Some c \<Rightarrow> round c \<le> price e)
         else price e = 0"
proof -
  from assms(2) have "e \<in> set (map snd rms)" by force
  with assms(1) show ?thesis
    unfolding live_inv_def list_all_iff prod.case by blast
qed

lemma live_room_inv:
  assumes "live_inv acc"
  shows "live_inv (live_room d rs r acc)"
proof -
  obtain rms ch mx where acc: "acc = (rms, ch, mx)" by (cases acc)
  note inv = live_inv_D [OF assms [unfolded acc]]
  let ?off = "\<lparr>price = 0, available = False, perNight = Fin 0\<rparr>"
  have off: "live_inv (AList.update r ?off rms, ch, mx)"
  proof (rule live_inv_I)
    fix k e assume "(k, e) \<in> set (AList.update r ?off rms)"
    then have "(k, e) = (r, ?off) \<or> (k, e) \<in> set rms"
      using set_update_subset [of r ?off rms] by blast
    then show "if available e then (case ch of None \<Rightarrow> False | Some c \<Rightarrow> round c \<le> price e)
               else price e = 0"
      using inv by (elim disjE) auto
  qed
  show ?thesis
  proof (cases "raw_price rs r")
    case None
    then show ?thesis using off by (simp add: acc live_room_def)
  next
    case (Some pp)
    show ?thesis
    proof (cases "pp > 0")
      case False
      then show ?thesis using off by (simp add: acc live_room_def Some)
    next
      case True
      let ?on = "\<lparr>price = round pp, available = True, perNight = Math_round_div pp d\<rparr>"
      let ?ch = "if (case ch of None \<Rightarrow> True | Some c \<Rightarrow> pp < c) then Some pp else ch"
      define c' where "c' = (case ch of None \<Rightarrow> pp | Some c \<Rightarrow> min pp c)"
      have c': "?ch = Some c'" and le_pp: "c' \<le> pp"
        and le_ch: "\<And>c. ch = Some c \<Longrightarrow> c' \<le> c"
        by (cases ch; simp add: c'_def min_def)+
      have "live_inv (AList.update r ?on rms, ?ch, if pp > mx then pp else mx)"
      proof (rule live_inv_I)
        fix k e assume "(k, e) \<in> set (AList.update r ?on rms)"
        then consider "e = ?on" | "(k, e) \<in> set rms"
          using set_update_subset [of r ?on rms] by blast
        then show "if available e then (case ?ch of None \<Rightarrow> False | Some c \<Rightarrow> round c \<le> price e)
                   else price e = 0"
        proof cases
          case 1
          then show ?thesis unfolding c' using round_mono [OF le_pp] by simp
        next
          case 2
          show ?thesis
          proof (cases "available e")
            case False
            with inv [OF 2] show ?thesis by simp
          next
            case True
            with inv [OF 2] obtain c where c: "ch = Some c" and "round c \<le> price e"
              by (auto split: option.splits)
            with round_mono [OF le_ch [OF c]] show ?thesis unfolding c' using True by simp
          qed
        qed
      qed
      then show ?thesis using True by (simp add: acc live_room_def Some)
    qed
  qed
qed

lemma fold_live_room_inv: "live_inv acc \<Longrightarrow> live_inv (fold (live_room d rs) rt acc)"
  by (induction rt arbitrary: acc) (simp_all add: live_room_inv)

lemma fold_price_sum: "fold (\<lambda>r a. a + price r) xs (a0::int) = a0 + sum_list (map price xs)"
  by (induction xs arbitrary: a0) auto

lemma live_month_priced:
  assumes "live_month rt d m = Inr e" and "js_gt0 (cheapest e)" and "x \<in> set (map snd (rooms e))"
  shows "(0 < price x) = available x"
proof -
  from assms(1) obtain rms ch mx where
    acc: "(case rt of [] \<Rightarrow> Inr ([], None, 0)
           | _ # _ \<Rightarrow> (case m_rooms m of None \<Rightarrow> Inl TypeError
                        | Some rs \<Rightarrow> Inr (fold (live_room d rs) rt ([], None, 0)))) = Inr (rms, ch, mx)"
    and rooms: "rooms e = rms" and ch: "cheapest e = Fin (case ch of None \<Rightarrow> 0 | Some c \<Rightarrow> round c)"
    by (auto simp: live_month_def Let_def split: sum.splits prod.splits)
  have inv: "live_inv (rms, ch, mx)"
  proof (cases rt)
    case Nil
    with acc show ?thesis by (simp add: live_inv_init)
  next
    case (Cons r rt')
    with acc obtain rs where "fold (live_room d rs) rt ([], None, 0) = (rms, ch, mx)"
      by (auto simp del: fold_simps split: option.splits)
    with fold_live_room_inv [OF live_inv_init, of d rs rt] show ?thesis by simp
  qed
  from assms(3) obtain k where k: "(k, x) \<in> set rms" by (auto simp: rooms)
  from assms(2) obtain c where c: "ch = Some c" and pos: "0 < round c"
    by (cases ch) (auto simp: ch)
  show ?thesis
    using live_inv_D [OF inv k] pos by (auto simp: c split: if_splits)
qed

lemma live_month_avgPrice:
  assumes "live_month rt d m = Inr e" and "js_gt0 (cheapest e)"
  shows "avgPrice e = round (real_of_int (sum_list (map price (filter available (map snd (rooms e)))))
                             / real (max (length (filter available (map snd (rooms e)))) 1))"
proof -
  have f: "filter (\<lambda>r. 0 < price r) (map snd (rooms e)) = filter available (map snd (rooms e))"
    by (rule filter_cong [OF refl]) (use live_month_priced [OF assms] in blast)
  have "avgPrice e = round (real_of_int (fold (\<lambda>r a. a + price r) (filter (\<lambda>r. 0 < price r) (map snd (rooms e))) 0)
                             / real (max (length (filter (\<lambda>r. 0 < price r) (map snd (rooms e)))) 1))"
    using assms(1) by (auto simp: live_month_def Let_def split: sum.splits prod.splits)
  then show ?thesis by (simp only: f fold_price_sum add_0)
qed

section \<open>The grid of the generator and the clock\<close>

lemma month_generateDemoData:
  "i < 12 \<Longrightarrow> month (generateDemoData now hotel airport duration board ! i)
     = MONTHS ! ((getMonth now + i) mod 12)"
  by (simp add: nth_generateDemoData demo_month_eq Let_def)

lemma year_generateDemoData:
  "i < 12 \<Longrightarrow> year (generateDemoData now hotel airport duration board ! i)
     = getFullYear now + (if 12 \<le> getMonth now + i then 1 else 0)"
  by (simp add: nth_generateDemoData demo_month_eq Let_def)

lemma month_labels_distinct:
  assumes "m0 < 12"
  shows "distinct (map (\<lambda>i. MONTHS ! ((m0 + i) mod 12)) [0..<12])"
proof -
  have d: "distinct MONTHS" by (simp add: MONTHS_def)
  have l: "length MONTHS = 12" by (simp add: MONTHS_def)
  have "inj_on (\<lambda>i. (m0 + i) mod 12) {0..<12}"
  proof (rule inj_onI)
    fix x y assume "x \<in> {0..<12}" "y \<in> {0..<12}" "(m0 + x) mod 12 = (m0 + y) mod 12"
    then show "x = y" using assms by (simp add: mod_eq_iff_dvd_symdiff_nat) presburger
  qed
  then have "distinct (map (\<lambda>i. (m0 + i) mod 12) [0..<12])"
    by (simp add: distinct_map)
  then have "distinct (map ((!) MONTHS) (map (\<lambda>i. (m0 + i) mod 12) [0..<12]))"
    by (subst distinct_map) (auto simp: inj_on_def nth_eq_iff_index_eq [OF d] l)
  then show ?thesis by (simp add: comp_def)
qed

text \<open>
  C7, as the spec states it, says that for fixed hotel name, airport code, duration and
  board basis the generator returns identical output on every call. The generator also
  reads the clock: a call on 31 January and a call on 1 February 2026, with the inputs
  of the spec's own scenario, return different grids.
\<close>

theorem C7_differs_across_months:
  "generateDemoData jan31 ''Sunwing Alcudia Beach'' ''MAN'' 7 ''Half Board''
     \<noteq> generateDemoData feb01 ''Sunwing Alcudia Beach'' ''MAN'' 7 ''Half Board''"
proof
  assume "generateDemoData jan31 ''Sunwing Alcudia Beach'' ''MAN'' 7 ''Half Board''
            = generateDemoData feb01 ''Sunwing Alcudia Beach'' ''MAN'' 7 ''Half Board''"
  then have "month (generateDemoData jan31 ''Sunwing Alcudia Beach'' ''MAN'' 7 ''Half Board'' ! 0)
               = month (generateDemoData feb01 ''Sunwing Alcudia Beach'' ''MAN'' 7 ''Half Board'' ! 0)"
    by simp
  then show False
    by (simp add: month_generateDemoData jan31_def feb01_def MONTHS_def)
qed

text \<open>
  C7, amended: for fixed hotel name, airport code, duration and board basis, and for clock
  readings in the same calendar month of the same year, the generator returns identical
  12-entry sequences; the day and the time of the call do not matter.
\<close>

theorem C7_same_month_same_grid:
  assumes "getMonth now1 = getMonth now2" and "getFullYear now1 = getFullYear now2"
  shows "generateDemoData now1 hotel airport duration board
           = generateDemoData now2 hotel airport duration board
         \<and> length (generateDemoData now1 hotel airport duration board) = 12"
  using assms by (simp add: generateDemoData_def gen_months_def demo_month_def)

theorem C7_same_month_same_grid_witness:
  "getMonth nov02 = getMonth nov30 \<and> getFullYear nov02 = getFullYear nov30
   \<and> getDate nov02 \<noteq> getDate nov30
   \<and> generateDemoData nov02 ''Sunwing Alcudia Beach'' ''MAN'' 7 ''Half Board''
       = generateDemoData nov30 ''Sunwing Alcudia Beach'' ''MAN'' 7 ''Half Board''
   \<and> length (generateDemoData nov02 ''Sunwing Alcudia Beach'' ''MAN'' 7 ''Half Board'') = 12"
proof -
  have a: "getMonth nov02 = getMonth nov30" by (simp add: nov02_def nov30_def)
  have b: "getFullYear nov02 = getFullYear nov30" by (simp add: nov02_def nov30_def)
  have c: "getDate nov02 \<noteq> getDate nov30" by (simp add: nov02_def nov30_def)
  show ?thesis
    using a b c C7_same_month_same_grid [OF a b] by blast
qed

text \<open>
  C4, as the spec states it, says that the normalizer returns at most 12 month entries for
  every hotel record. It returns one entry for each scraped month it keeps: 13 for a
  record of 13 priced months.
\<close>

theorem C4_thirteen_months:
  "(case buildLiveMonths hotel_13_months ''MAN'' 7 of
      Inr (Some r) \<Rightarrow> length (months r) = 13 | _ \<Rightarrow> False)"
  by (simp add: hotel_13_months_def live_eval)

text \<open>
  C4, amended: the generator returns exactly 12 month entries, the entry of offset \<open>i\<close>
  labelled with the calendar month \<open>i\<close> months after the current one and with the year
  increased by one once the months wrap, so one entry per calendar month; the normalizer
  returns either null or between 1 and as many entries as the hotel record has scraped
  months (at most 12 for a record of at most 12 months), never an empty list.
\<close>

theorem C4_grid_sizes:
  "length (generateDemoData now hotel airport duration board) = 12
   \<and> (\<forall>i<12. month (generateDemoData now hotel airport duration board ! i)
                 = MONTHS ! ((getMonth now + i) mod 12)
             \<and> year (generateDemoData now hotel airport duration board ! i)
                 = getFullYear now + (if 12 \<le> getMonth now + i then 1 else 0))
   \<and> (getMonth now < 12
        \<longrightarrow> distinct (map month (generateDemoData now hotel airport duration board)))
   \<and> (\<forall>r. buildLiveMonths h ap d = Inr (Some r)
        \<longrightarrow> (\<exists>ms. h_months h = Some ms \<and> 1 \<le> length (months r)
                   \<and> length (months r) \<le> length ms))"
proof (intro conjI allI impI)
  show "length (generateDemoData now hotel airport duration board) = 12"
    by (rule length_generateDemoData)
  show "month (generateDemoData now hotel airport duration board ! i)
          = MONTHS ! ((getMonth now + i) mod 12)" if "i < 12" for i
    using that by (rule month_generateDemoData)
  show "year (generateDemoData now hotel airport duration board ! i)
          = getFullYear now + (if 12 \<le> getMonth now + i then 1 else 0)" if "i < 12" for i
    using that by (rule year_generateDemoData)
  show "distinct (map month (generateDemoData now hotel airport duration board))"
    if "getMonth now < 12"
  proof -
    have "map month (generateDemoData now hotel airport duration board)
            = map (\<lambda>i. MONTHS ! ((getMonth now + i) mod 12)) [0..<12]"
      by (simp add: generateDemoData_def gen_months_def demo_month_eq Let_def comp_def)
    then show ?thesis using month_labels_distinct [OF that] by simp
  qed
  show "\<exists>ms. h_months h = Some ms \<and> 1 \<le> length (months r) \<and> length (months r) \<le> length ms"
    if r: "buildLiveMonths h ap d = Inr (Some r)" for r
  proof -
    from r obtain ms ms' where ms: "h_months h = Some ms"
      and ms': "map_throw (live_month (active_room_types h) d) ms = Inr ms'"
      and v: "months r = filter (\<lambda>m. js_gt0 (cheapest m)) ms'" and ne: "months r \<noteq> []"
      by (auto simp: buildLiveMonths_eq split: option.splits if_splits sum.splits)
    have "length (months r) \<le> length ms'" by (simp add: v)
    with map_throw_length [OF ms'] have "length (months r) \<le> length ms" by simp
    moreover from ne have "1 \<le> length (months r)" by (cases "months r") simp_all
    ultimately show ?thesis using ms by blast
  qed
qed

theorem C4_grid_sizes_witness:
  "length (generateDemoData nov02 ''Sunwing Alcudia Beach'' ''MAN'' 7 ''Half Board'') = 12
   \<and> (3::nat) < 12
   \<and> month (generateDemoData nov02 ''Sunwing Alcudia Beach'' ''MAN'' 7 ''Half Board'' ! 3) = ''Feb''
   \<and> year (generateDemoData nov02 ''Sunwing Alcudia Beach'' ''MAN'' 7 ''Half Board'' ! 3) = 2027
   \<and> getMonth nov02 < 12
   \<and> distinct (map month (generateDemoData nov02 ''Sunwing Alcudia Beach'' ''MAN'' 7 ''Half Board''))
   \<and> (case buildLiveMonths hotel_suite_450 ''MAN'' 10 of
         Inr (Some r) \<Rightarrow> h_months hotel_suite_450 \<noteq> None \<and> length (months r) = 1 | _ \<Rightarrow> False)"
proof -
  have a: "getMonth nov02 < 12" by (simp add: nov02_def)
  have b: "buildLiveMonths hotel_suite_450 ''MAN'' 10 = Inr (Some
     \<lparr>months = [\<lparr>month = ''Jun'', year = 2026,
        rooms = [(''Suite'', \<lparr>price = 450, available = True, perNight = Fin 45\<rparr>)],
        cheapest = Fin 450, mostExpensive = 450, avgPrice = 450, availability = ''1/1''\<rparr>],
      roomTypes = [''Suite'']\<rparr>)"
    by (simp add: hotel_suite_450_def live_eval)
  have c: "h_months hotel_suite_450 \<noteq> None" by (simp add: hotel_suite_450_def)
  have d: "MONTHS ! ((getMonth nov02 + 3) mod 12) = ''Feb''" by (simp add: nov02_def MONTHS_def)
  have e: "getFullYear nov02 + (if 12 \<le> getMonth nov02 + 3 then 1 else 0) = 2027"
    by (simp add: nov02_def)
  show ?thesis
    using a c d e
      C4_grid_sizes [of nov02 "''Sunwing Alcudia Beach''" "''MAN''" 7 "''Half Board''"
                        hotel_suite_450 "''MAN''" 10]
    by (simp add: b)
qed

section \<open>The default room types\<close>

text \<open>
  C10, as the spec states it, says that a record with at least one month and no
  \<^verbatim>\<open>room_types\<close> is never normalized to null. The normalizer then works with the five
  default room types, and a record whose scraped room names are not among them has every
  month dropped by the filter step: the result is null.
\<close>

theorem C10_null_with_default_types: "buildLiveMonths hotel_other_names ''MAN'' 7 = Inr None"
  by (simp add: hotel_other_names_def live_eval)

text \<open>
  C10, amended: for a record with at least one month and no \<^verbatim>\<open>room_types\<close>, the
  normalizer behaves exactly as on the same record with the default list (Standard Double,
  Superior Double, Family Room, Suite, Sea View Double): a result that is not null names
  that list as its room types, and the result is null only when every month is dropped by
  the filter step. At the room-type check itself, null is returned only for a list that is
  present and empty.
\<close>

theorem C10_default_room_types:
  assumes "h_months h = Some ms" and "ms \<noteq> []" and "h_roomTypes h = None"
  shows "buildLiveMonths h ap d = buildLiveMonths (h\<lparr>h_roomTypes := Some ROOM_TYPES\<rparr>) ap d
       \<and> ROOM_TYPES = [''Standard Double'', ''Superior Double'', ''Family Room'', ''Suite'',
                        ''Sea View Double'']
       \<and> (\<forall>r. buildLiveMonths h ap d = Inr (Some r) \<longrightarrow> roomTypes r = ROOM_TYPES)
       \<and> (buildLiveMonths h ap d = Inr None \<longleftrightarrow>
            (\<exists>ms'. map_throw (live_month ROOM_TYPES d) ms = Inr ms'
                   \<and> (\<forall>m \<in> set ms'. \<not> js_gt0 (cheapest m))))
       \<and> buildLiveMonths (h\<lparr>h_roomTypes := Some []\<rparr>) ap d = Inr None"
proof -
  have rt: "active_room_types h = ROOM_TYPES"
    by (simp add: active_room_types_def assms(3))
  have ne: "ROOM_TYPES \<noteq> []" by (simp add: ROOM_TYPES_def)
  show ?thesis
  proof (intro conjI allI impI)
    show "buildLiveMonths h ap d = buildLiveMonths (h\<lparr>h_roomTypes := Some ROOM_TYPES\<rparr>) ap d"
      by (simp add: buildLiveMonths_eq assms(1) rt
                    active_room_types_def [of "h\<lparr>h_roomTypes := Some ROOM_TYPES\<rparr>"]
               split: sum.splits)
    show "ROOM_TYPES = [''Standard Double'', ''Superior Double'', ''Family Room'', ''Suite'',
                        ''Sea View Double'']"
      by (simp add: ROOM_TYPES_def)
    show "roomTypes r = ROOM_TYPES" if "buildLiveMonths h ap d = Inr (Some r)" for r
      using that by (auto simp: buildLiveMonths_eq rt assms(1) split: if_splits sum.splits)
    show "buildLiveMonths h ap d = Inr None \<longleftrightarrow>
            (\<exists>ms'. map_throw (live_month ROOM_TYPES d) ms = Inr ms'
                   \<and> (\<forall>m \<in> set ms'. \<not> js_gt0 (cheapest m)))"
      by (auto simp: buildLiveMonths_eq rt assms(1,2) ne filter_empty_conv split: sum.splits)
    show "buildLiveMonths (h\<lparr>h_roomTypes := Some []\<rparr>) ap d = Inr None"
      by (simp add: buildLiveMonths_eq active_room_types_def assms(1))
  qed
qed

theorem C10_default_room_types_witness:
  "h_months (hotel_suite_450\<lparr>h_roomTypes := None\<rparr>)
     = Some [scraped_month ''Jun 2026'' [(''Suite'', 450)]]
   \<and> [scraped_month ''Jun 2026'' [(''Suite'', 450)]] \<noteq> []
   \<and> h_roomTypes (hotel_suite_450\<lparr>h_roomTypes := None\<rparr>) = None
   \<and> (case buildLiveMonths (hotel_suite_450\<lparr>h_roomTypes := None\<rparr>) ''MAN'' 10 of
         Inr (Some r) \<Rightarrow> roomTypes r = ROOM_TYPES \<and> map month (months r) = [''Jun'']
       | _ \<Rightarrow> False)
   \<and> buildLiveMonths (hotel_suite_450\<lparr>h_roomTypes := Some []\<rparr>) ''MAN'' 10 = Inr None"
proof -
  have a: "h_months (hotel_suite_450\<lparr>h_roomTypes := None\<rparr>)
             = Some [scraped_month ''Jun 2026'' [(''Suite'', 450)]]"
    by (simp add: hotel_suite_450_def)
  have b: "[scraped_month ''Jun 2026'' [(''Suite'', 450)]] \<noteq> []" by simp
  have c: "h_roomTypes (hotel_suite_450\<lparr>h_roomTypes := None\<rparr>) = None" by simp
  have e: "(case buildLiveMonths (hotel_suite_450\<lparr>h_roomTypes := Some ROOM_TYPES\<rparr>) ''MAN'' 10 of
         Inr (Some r) \<Rightarrow> roomTypes r = ROOM_TYPES \<and> map month (months r) = [''Jun'']
       | _ \<Rightarrow> False)"
    by (simp add: hotel_suite_450_def live_eval)
  show ?thesis
    using a b c e C10_default_room_types [OF a b c, of "''MAN''" 10]
    by simp
qed

section \<open>Per-night prices\<close>

lemma DURATIONS_positive: "duration \<in> set DURATIONS \<Longrightarrow> 0 < duration"
  by (auto simp: DURATIONS_def)

lemma demo_perNight:
  assumes "i < 12" and "0 < duration"
    and "e \<in> set (map snd (rooms (generateDemoData now hotel airport duration board ! i)))"
  shows "perNight e = Fin (round (real_of_int (price e) / real duration))"
  using assms
  by (auto simp: nth_generateDemoData rooms_demo_month demo_rooms_def demo_entry_def
                 Math_round_div_def)

text \<open>
  C3: \<open>perNight = round(price / duration)\<close> with the rounded \<open>price\<close> of the entry. The
  generator computes it so (lemma \<open>demo_perNight\<close>). The normalizer divides the raw
  \<^verbatim>\<open>price_pp\<close> instead: for a raw price of 14.6 and 10 nights it stores the price 15 and
  the per-night price \<open>round(1.46) = 1\<close>, while \<open>round(15 / 10) = 2\<close>.
\<close>

theorem C3_perNight_from_raw_price:
  "buildLiveMonths hotel_fractional ''MAN'' 10 =
     Inr (Some \<lparr>months = [\<lparr>month = ''Jun'', year = 2026,
        rooms = [(''Suite'', \<lparr>price = 15, available = True, perNight = Fin 1\<rparr>)],
        cheapest = Fin 15, mostExpensive = 15, avgPrice = 15, availability = ''1/1''\<rparr>],
      roomTypes = [''Suite'']\<rparr>)
   \<and> Math_round_div 15 10 = Fin 2"
  by (simp add: hotel_fractional_def live_eval)

section \<open>Average prices\<close>

lemma demo_avgPrice:
  "i < 12 \<Longrightarrow>
   avgPrice (generateDemoData now hotel airport duration board ! i)
     = round (real_of_int (sum_list (map (price \<circ> snd)
                 (rooms (generateDemoData now hotel airport duration board ! i))))
              / real (length ROOM_TYPES))"
  by (simp add: nth_generateDemoData demo_month_eq Let_def fold_price_sum)

lemma demo_rooms_length:
  "i < 12 \<Longrightarrow> length (rooms (generateDemoData now hotel airport duration board ! i))
     = length ROOM_TYPES"
  by (simp add: nth_generateDemoData rooms_demo_month demo_rooms_def)

lemma live_avgPrice:
  assumes "buildLiveMonths h ap d = Inr (Some r)" and "m \<in> set (months r)"
  shows "avgPrice m = round (real_of_int (sum_list (map price (filter available (map snd (rooms m)))))
                             / real (max (length (filter available (map snd (rooms m)))) 1))"
proof -
  from assms(1) obtain ms ms' where
    ms': "map_throw (live_month (active_room_types h) d) ms = Inr ms'"
    and v: "months r = filter (\<lambda>m. js_gt0 (cheapest m)) ms'"
    by (auto simp: buildLiveMonths_eq split: option.splits if_splits sum.splits)
  from assms(2) have m: "m \<in> set ms'" and pos: "js_gt0 (cheapest m)" by (simp_all add: v)
  from map_throw_set [OF ms' m] obtain m0 where "live_month (active_room_types h) d m0 = Inr m"
    by blast
  then show ?thesis using pos by (rule live_month_avgPrice)
qed

text \<open>
  C5: in every month entry of the generator, \<open>avgPrice\<close> is the rounded sum of the prices
  of all rooms, available or not, over the number of room types (5, one entry per room
  type); in every month entry the normalizer returns, \<open>avgPrice\<close> is the rounded sum of
  the prices of the available rooms over their number, with 1 in place of 0.
\<close>

theorem C5_average_prices:
  "(\<forall>i<12. avgPrice (generateDemoData now hotel airport duration board ! i)
       = round (real_of_int (sum_list (map (price \<circ> snd)
                   (rooms (generateDemoData now hotel airport duration board ! i))))
                / real (length ROOM_TYPES))
     \<and> length (rooms (generateDemoData now hotel airport duration board ! i)) = length ROOM_TYPES)
   \<and> (\<forall>r m. buildLiveMonths h ap d = Inr (Some r) \<and> m \<in> set (months r) \<longrightarrow>
        avgPrice m
          = round (real_of_int (sum_list (map price (filter available (map snd (rooms m)))))
                   / real (max (length (filter available (map snd (rooms m)))) 1)))"
  using demo_avgPrice demo_rooms_length live_avgPrice by blast

theorem C5_average_prices_witness:
  "(0::nat) < 12
   \<and> avgPrice (generateDemoData nov02 ''Sunwing Alcudia Beach'' ''MAN'' 7 ''Half Board'' ! 0)
       = round (real_of_int (sum_list (map (price \<circ> snd)
                   (rooms (generateDemoData nov02 ''Sunwing Alcudia Beach'' ''MAN'' 7 ''Half Board'' ! 0))))
                / 5)
   \<and> length (rooms (generateDemoData nov02 ''Sunwing Alcudia Beach'' ''MAN'' 7 ''Half Board'' ! 0)) = 5
   \<and> (case buildLiveMonths hotel_mixed ''MAN'' 7 of
         Inr (Some r) \<Rightarrow>
           map (\<lambda>m. (map (\<lambda>e. (price e, available e)) (map snd (rooms m)), avgPrice m)) (months r)
             = [([(380, True), (0, False), (450, True)], 415)]
           \<and> (415::int) = round (real_of_int (380 + 450) / real (max 2 1))
       | _ \<Rightarrow> False)"
proof -
  define m where "m = \<lparr>month = ''Jul'', year = 2026,
        rooms = [(''Standard Double'', \<lparr>price = 380, available = True, perNight = Fin 54\<rparr>),
                 (''Family Room'', \<lparr>price = 0, available = False, perNight = Fin 0\<rparr>),
                 (''Suite'', \<lparr>price = 450, available = True, perNight = Fin 64\<rparr>)],
        cheapest = Fin 380, mostExpensive = 450, avgPrice = 415, availability = ''2/3''\<rparr>"
  define r where "r = \<lparr>months = [m], roomTypes = [''Standard Double'', ''Family Room'', ''Suite'']\<rparr>"
  have b: "buildLiveMonths hotel_mixed ''MAN'' 7 = Inr (Some r)"
    by (simp add: hotel_mixed_def live_eval r_def m_def)
  have c: "m \<in> set (months r)" by (simp add: r_def)
  have a: "(0::nat) < 12" by simp
  have l: "length ROOM_TYPES = 5" by (rule length_ROOM_TYPES)
  from C5_average_prices [of nov02 "''Sunwing Alcudia Beach''" "''MAN''" 7 "''Half Board''"
                            hotel_mixed "''MAN''" 7]
  have g: "avgPrice (generateDemoData nov02 ''Sunwing Alcudia Beach'' ''MAN'' 7 ''Half Board'' ! 0)
       = round (real_of_int (sum_list (map (price \<circ> snd)
                   (rooms (generateDemoData nov02 ''Sunwing Alcudia Beach'' ''MAN'' 7 ''Half Board'' ! 0))))
                / real (length ROOM_TYPES))
     \<and> length (rooms (generateDemoData nov02 ''Sunwing Alcudia Beach'' ''MAN'' 7 ''Half Board'' ! 0))
         = length ROOM_TYPES"
    and lv: "avgPrice m
          = round (real_of_int (sum_list (map price (filter available (map snd (rooms m)))))
                   / real (max (length (filter available (map snd (rooms m)))) 1))"
    using a b c by blast+
  from lv have "(415::int) = round (real_of_int (380 + 450) / real (max 2 1))"
    by (simp add: m_def)
  with g show ?thesis
    by (simp add: b l r_def m_def)
qed

section \<open>The random draw of the standard double room, five months ahead\<close>

text \<open>
  For the inputs of the spec's scenario the seed is 3143, and the availability of the
  room at position 0 in the month of offset 5 is drawn at index 500: the sine of 3643.
  Reduced by \<open>1160 * pi\<close> and enclosed by the polynomial, \<open>10000 * sin 3643\<close> lies
  between \<open>-9482\<close> and \<open>-9481.85\<close>, so the draw is at most 0.15.
\<close>

lemma sin_poly_sum: "(\<Sum>m<12. sin_coeff m * x ^ m) = sin_poly x"
  by (simp add: sin_poly_def sin_coeff_def lessThan_nat_numeral fact_numeral)

lemma sin_bounds: "sin_poly x - sin_err x \<le> sin x" "sin x \<le> sin_poly x + sin_err x"
proof -
  have e: "inverse (fact 12 :: real) = 1 / 479001600" by (simp add: fact_numeral)
  have "\<bar>sin x - sin_poly x\<bar> \<le> inverse (fact 12) * \<bar>x\<bar> ^ 12"
    unfolding sin_poly_sum [symmetric] by (rule Maclaurin_sin_bound)
  then have "\<bar>sin x - sin_poly x\<bar> \<le> sin_err x" unfolding e sin_err_def by simp
  then show "sin_poly x - sin_err x \<le> sin x" "sin x \<le> sin_poly x + sin_err x"
    by linarith+
qed

lemma pi_sixth_lower: "5235987755 / 10000000000 < pi / 6"
proof (rule ccontr)
  let ?a = "5235987755 / 10000000000 :: real"
  assume "\<not> ?a < pi / 6"
  then have le: "pi / 6 \<le> ?a" by simp
  have "?a \<le> pi / 2" using pi_ge_two by simp
  moreover have "- (pi / 2) \<le> pi / 6" using pi_ge_two by simp
  ultimately have "sin (pi / 6) \<le> sin ?a" using le by (intro sin_monotone_2pi_le)
  then have "1 / 2 \<le> sin ?a" by (simp add: sin_30)
  moreover have "sin_poly ?a + sin_err ?a < 1 / 2"
    by (simp add: sin_poly_def sin_err_def power_divide)
  ultimately show False using sin_bounds(2) [of ?a] by linarith
qed

lemma pi_sixth_upper: "pi / 6 < 5235987756 / 10000000000"
proof (rule ccontr)
  let ?b = "5235987756 / 10000000000 :: real"
  assume "\<not> pi / 6 < ?b"
  then have le: "?b \<le> pi / 6" by simp
  have "pi / 6 \<le> pi / 2" using pi_ge_two by simp
  moreover have "- (pi / 2) \<le> ?b" using pi_ge_two by simp
  ultimately have "sin ?b \<le> sin (pi / 6)" using le by (intro sin_monotone_2pi_le)
  then have "sin ?b \<le> 1 / 2" by (simp add: sin_30)
  moreover have "1 / 2 < sin_poly ?b - sin_err ?b"
    by (simp add: sin_poly_def sin_err_def power_divide)
  ultimately show False using sin_bounds(1) [of ?b] by linarith
qed

lemma pi_bounds: "3141592653 / 1000000000 < pi" "pi < 31415926536 / 10000000000"
  using pi_sixth_lower pi_sixth_upper by simp_all

lemma sin_3643_reduce: "sin (3643 :: real) = sin (3643 - 1160 * pi)"
  by (simp add: sin_diff)

lemma sin_3643_bounds:
  "- 9482 \<le> sin (3643 :: real) * 10000" "sin (3643 :: real) * 10000 \<le> - 9482 + 15 / 100"
proof -
  let ?lo = "- 12474782 / 10000000 :: real" and ?hi = "- 12474774 / 10000000 :: real"
  let ?r = "3643 - 1160 * pi :: real"
  have r: "?lo \<le> ?r" "?r \<le> ?hi" using pi_bounds by linarith+
  have "- (pi / 2) \<le> ?lo" using pi_bounds by linarith
  then have 1: "sin ?lo \<le> sin ?r"
    by (rule sin_monotone_2pi_le) (use r pi_bounds in linarith)+
  have "?hi \<le> pi / 2" using pi_bounds by linarith
  then have 2: "sin ?r \<le> sin ?hi"
    by (intro sin_monotone_2pi_le) (use r pi_bounds in linarith)+
  have 3: "- 9482 \<le> 10000 * (sin_poly ?lo - sin_err ?lo)"
    by (simp add: sin_poly_def sin_err_def power_divide)
  have 4: "10000 * (sin_poly ?hi + sin_err ?hi) \<le> - 9482 + 15 / 100"
    by (simp add: sin_poly_def sin_err_def power_divide)
  define sl sh sr pl ph where "sl = sin ?lo" and "sh = sin ?hi" and "sr = sin ?r"
    and "pl = sin_poly ?lo - sin_err ?lo" and "ph = sin_poly ?hi + sin_err ?hi"
  have "sl \<le> sr" "sr \<le> sh" "- 9482 \<le> 10000 * pl" "10000 * ph \<le> - 9482 + 15 / 100"
    "pl \<le> sl" "sh \<le> ph"
    unfolding sl_def sh_def sr_def pl_def ph_def
    using 1 2 3 4 sin_bounds(1) [of ?lo] sin_bounds(2) [of ?hi] by blast+
  then have "- 9482 \<le> sr * 10000" "sr * 10000 \<le> - 9482 + 15 / 100" by linarith+
  then show "- 9482 \<le> sin (3643 :: real) * 10000"
    "sin (3643 :: real) * 10000 \<le> - 9482 + 15 / 100"
    unfolding sin_3643_reduce sr_def .
qed

lemma rng_3143_500: "rng 3143 500 \<le> 0.15"
proof -
  let ?x = "sin (3643 :: real) * 10000"
  have "\<lfloor>?x\<rfloor> = - 9482"
    using sin_3643_bounds by (intro floor_unique) simp_all
  then have "?x - of_int \<lfloor>?x\<rfloor> \<le> 0.15" using sin_3643_bounds(2) by simp
  then show ?thesis by (simp add: rng_def Let_def)
qed

section \<open>Cheapest and most expensive in the generator\<close>

lemma seed_sunwing: "seed_of ''Sunwing Alcudia Beach'' ''MAN'' 7 ''Half Board'' = 3143"
  by (simp add: seed_of_def show_nat.simps)

lemma cheapest_is_standard_double:
  assumes "i < 12"
  shows "map_option (Fin \<circ> price)
           (map_of (rooms (generateDemoData now hotel airport duration board ! i)) ''Standard Double'')
         = Some (cheapest (generateDemoData now hotel airport duration board ! i))"
    and "cheapest (generateDemoData now hotel airport duration board ! i) \<noteq> Fin 0"
proof -
  let ?rnd = "rng (seed_of hotel airport duration board)"
  let ?mi = "(getMonth now + i) mod 12"
  have H: "\<forall>k. 0 \<le> ?rnd k \<and> ?rnd k < 1" using rng_range by blast
  have mi: "?mi < 12" by simp
  have c: "cheapest (demo_month ?rnd now duration board i)
             = Fin (room_price ?rnd duration board ?mi i ''Standard Double'' 0)"
    by (simp only: cheapest_demo_month Min_demo_prices [OF H mi])
  have 0: "ROOM_TYPES ! 0 = ''Standard Double''" "0 < length ROOM_TYPES"
    by (simp_all add: ROOM_TYPES_def)
  from map_of_demo_rooms [OF 0(2), of ?rnd duration board ?mi i]
  show "map_option (Fin \<circ> price)
           (map_of (rooms (generateDemoData now hotel airport duration board ! i)) ''Standard Double'')
         = Some (cheapest (generateDemoData now hotel airport duration board ! i))"
    using assms by (simp add: nth_generateDemoData rooms_demo_month c 0(1) demo_entry_def)
  have "90 \<le> room_price ?rnd duration board ?mi i ''Standard Double'' 0"
    by (rule room_price_pos) (use H in \<open>auto simp: ROOM_TYPES_def\<close>)
  then show "cheapest (generateDemoData now hotel airport duration board ! i) \<noteq> Fin 0"
    using assms by (simp add: nth_generateDemoData c)
qed

lemma mostExpensive_over_all_rooms:
  assumes "i < 12"
  shows "mostExpensive (generateDemoData now hotel airport duration board ! i)
           = Max (set (map (price \<circ> snd)
                   (rooms (generateDemoData now hotel airport duration board ! i))))"
    and "90 \<le> mostExpensive (generateDemoData now hotel airport duration board ! i)"
proof -
  let ?rnd = "rng (seed_of hotel airport duration board)"
  let ?mi = "(getMonth now + i) mod 12"
  let ?ps = "demo_prices ?rnd duration board ?mi i"
  have H: "\<forall>k. 0 \<le> ?rnd k \<and> ?rnd k < 1" using rng_range by blast
  have m: "mostExpensive (generateDemoData now hotel airport duration board ! i)
             = max 0 (Max (set ?ps))"
    and r: "map (price \<circ> snd) (rooms (generateDemoData now hotel airport duration board ! i)) = ?ps"
    using assms
    by (simp_all only: nth_generateDemoData demo_month_eq Let_def month_entry.select_convs
                       demo_prices_rooms)
  have "room_price ?rnd duration board ?mi i ''Standard Double'' 0 \<in> set ?ps"
    unfolding demo_prices_def using standard_in_enumerate by force
  then have "room_price ?rnd duration board ?mi i ''Standard Double'' 0 \<le> Max (set ?ps)"
    by (intro Max_ge) simp_all
  moreover have "90 \<le> room_price ?rnd duration board ?mi i ''Standard Double'' 0"
    by (rule room_price_pos) (use H in \<open>auto simp: ROOM_TYPES_def\<close>)
  ultimately have "90 \<le> Max (set ?ps)" by linarith
  then show "mostExpensive (generateDemoData now hotel airport duration board ! i)
           = Max (set (map (price \<circ> snd)
                   (rooms (generateDemoData now hotel airport duration board ! i))))"
    and "90 \<le> mostExpensive (generateDemoData now hotel airport duration board ! i)"
    unfolding m r by simp_all
qed

text \<open>
  C1 says that \<open>cheapest\<close> is the minimum price among the rooms marked available and 0
  when none is. The generator updates its running minimum whether the room is available
  or not. For the spec's scenario (Sunwing Alcudia Beach, MAN, 7 nights, Half Board), in
  the month five months ahead the Standard Double is not available, yet its price is
  the \<open>cheapest\<close> of the entry, which differs from the minimum over the available rooms
  and is not 0.
\<close>

theorem C1_cheapest_of_sold_out_room:
  "map_option available
     (map_of (rooms (generateDemoData nov02 ''Sunwing Alcudia Beach'' ''MAN'' 7 ''Half Board'' ! 5))
             ''Standard Double'') = Some False
   \<and> map_option (Fin \<circ> price)
       (map_of (rooms (generateDemoData nov02 ''Sunwing Alcudia Beach'' ''MAN'' 7 ''Half Board'' ! 5))
               ''Standard Double'')
     = Some (cheapest (generateDemoData nov02 ''Sunwing Alcudia Beach'' ''MAN'' 7 ''Half Board'' ! 5))
   \<and> cheapest (generateDemoData nov02 ''Sunwing Alcudia Beach'' ''MAN'' 7 ''Half Board'' ! 5)
       \<noteq> Fin (spec_cheapest
                 (rooms (generateDemoData nov02 ''Sunwing Alcudia Beach'' ''MAN'' 7 ''Half Board'' ! 5)))
   \<and> cheapest (generateDemoData nov02 ''Sunwing Alcudia Beach'' ''MAN'' 7 ''Half Board'' ! 5) \<noteq> Fin 0"
proof -
  let ?G = "generateDemoData nov02 ''Sunwing Alcudia Beach'' ''MAN'' 7 ''Half Board''"
  have H: "\<forall>k. 0 \<le> rng 3143 k \<and> rng 3143 k < 1" using rng_range by blast
  have off: "rng 3143 (avail_index 5 0) \<le> 0.15"
    using rng_3143_500 by (simp add: avail_index_def)
  have G5: "?G ! 5 = demo_month (rng 3143) nov02 7 ''Half Board'' 5"
    by (simp add: nth_generateDemoData seed_sunwing)
  have 0: "ROOM_TYPES ! 0 = ''Standard Double''" "0 < length ROOM_TYPES" "(5::nat) < 12"
    by (simp_all add: ROOM_TYPES_def)
  have a: "map_option available (map_of (rooms (?G ! 5)) ''Standard Double'') = Some False"
    using off by (simp add: G5 rooms_demo_month map_of_demo_rooms [OF 0(2), of _ _ _ _ _, unfolded 0(1)] demo_entry_def)
  note d = demo_month_cheapest_diverges [OF H off, where now = nov02 and d = 7 and b = "''Half Board''"]
  have c: "cheapest (?G ! 5) \<noteq> Fin (spec_cheapest (rooms (?G ! 5)))"
    unfolding G5 using d by simp
  show ?thesis
    using a c cheapest_is_standard_double [OF 0(3), of nov02 "''Sunwing Alcudia Beach''" "''MAN''" 7 "''Half Board''"]
    by simp
qed

section \<open>The live-data status after the start-up fetch\<close>

lemma nonempty_list_truthy: "nonempty_list hs \<Longrightarrow> length_truthy hs"
  by (induction hs rule: nonempty_list.induct) auto

lemma missing_or_empty_falsy: "missing_or_empty hs \<Longrightarrow> \<not> length_truthy hs"
  by (induction hs rule: missing_or_empty.induct) auto

lemma liveStatus_startup_fetch:
  "liveStatus (startup_fetch outcome s) =
     (case outcome of
        Response True (Parsed d) \<Rightarrow>
          (case get_hotels d of Inr hs \<Rightarrow> if length_truthy hs then ''ok'' else ''none''
                              | Inl e \<Rightarrow> ''none'')
      | _ \<Rightarrow> ''none'')"
  by (simp add: startup_fetch_def on_response_def on_data_def
           split: fetch_outcome.splits body.splits sum.splits bool.splits)

text \<open>
  C9: whatever the fetch hands back, the status after the chain is \<open>ok\<close> or \<open>none\<close>,
  never \<open>loading\<close>: a document with a non-empty hotel list gives \<open>ok\<close> (and stores
  the document and switches to live mode); a document with no hotel list or an empty one,
  a network failure, a body that does not parse and a response that is not ok all give
  \<open>none\<close> and change nothing else.
\<close>

theorem C9_fetch_resolves:
  "(liveStatus (startup_fetch outcome s) = ''ok'' \<or> liveStatus (startup_fetch outcome s) = ''none'')
   \<and> liveStatus (startup_fetch outcome s) \<noteq> ''loading''
   \<and> (\<forall>d. has_hotels d \<longrightarrow>
          startup_fetch (Response True (Parsed d)) s
            = s\<lparr>liveData := Some d, liveStatus := ''ok'', mode := ''live''\<rparr>)
   \<and> (\<forall>d. no_hotels d \<longrightarrow>
          startup_fetch (Response True (Parsed d)) s = s\<lparr>liveStatus := ''none''\<rparr>)
   \<and> startup_fetch NoResponse s = s\<lparr>liveStatus := ''none''\<rparr>
   \<and> startup_fetch (Response True Unparsable) s = s\<lparr>liveStatus := ''none''\<rparr>
   \<and> (\<forall>b. startup_fetch (Response False b) s = s\<lparr>liveStatus := ''none''\<rparr>)"
proof (intro conjI allI impI)
  show "liveStatus (startup_fetch outcome s) = ''ok'' \<or> liveStatus (startup_fetch outcome s) = ''none''"
    by (simp add: liveStatus_startup_fetch split: fetch_outcome.splits body.splits sum.splits bool.splits)
  then show "liveStatus (startup_fetch outcome s) \<noteq> ''loading''" by auto
  show "startup_fetch (Response True (Parsed d)) s
          = s\<lparr>liveData := Some d, liveStatus := ''ok'', mode := ''live''\<rparr>" if "has_hotels d" for d
    using that
    by (cases d) (simp_all add: startup_fetch_def on_response_def on_data_def nonempty_list_truthy)
  show "startup_fetch (Response True (Parsed d)) s = s\<lparr>liveStatus := ''none''\<rparr>" if "no_hotels d" for d
    using that
    by (cases d) (simp_all add: startup_fetch_def on_response_def on_data_def missing_or_empty_falsy)
  show "startup_fetch NoResponse s = s\<lparr>liveStatus := ''none''\<rparr>"
    by (simp add: startup_fetch_def)
  show "startup_fetch (Response True Unparsable) s = s\<lparr>liveStatus := ''none''\<rparr>"
    by (simp add: startup_fetch_def on_response_def)
  show "startup_fetch (Response False b) s = s\<lparr>liveStatus := ''none''\<rparr>" for b
    by (simp add: startup_fetch_def on_response_def)
qed

theorem C9_fetch_resolves_witness:
  "has_hotels pricing_data
   \<and> startup_fetch (Response True (Parsed pricing_data)) initial_state
       = \<lparr>liveData = Some pricing_data, liveStatus = ''ok'', mode = ''live''\<rparr>
   \<and> no_hotels (JObj [(''hotels'', JArr [])])
   \<and> startup_fetch (Response True (Parsed (JObj [(''hotels'', JArr [])]))) initial_state
       = \<lparr>liveData = None, liveStatus = ''none'', mode = ''demo''\<rparr>
   \<and> no_hotels (JObj [(''total_prices'', JNum 0)])
   \<and> liveStatus (startup_fetch (Response True (Parsed (JObj [(''total_prices'', JNum 0)]))) initial_state)
       = ''none''
   \<and> liveStatus (startup_fetch (Response True (Parsed JNull)) initial_state) = ''none''
   \<and> liveStatus (startup_fetch (Response False Unparsable) initial_state) = ''none''
   \<and> liveStatus (startup_fetch NoResponse initial_state) = ''none''
   \<and> liveStatus initial_state = ''loading''"
proof -
  have a: "has_hotels pricing_data" by (simp add: pricing_data_def)
  have b: "no_hotels (JObj [(''hotels'', JArr [])])" by simp
  have c: "no_hotels (JObj [(''total_prices'', JNum 0)])" by simp
  have d: "liveStatus (startup_fetch (Response True (Parsed JNull)) initial_state) = ''none''"
    using C9_fetch_resolves [of "Response True (Parsed JNull)" initial_state]
    by (simp add: startup_fetch_def on_response_def on_data_def)
  note t = C9_fetch_resolves [of NoResponse initial_state]
  from t a have 1: "startup_fetch (Response True (Parsed pricing_data)) initial_state
       = initial_state\<lparr>liveData := Some pricing_data, liveStatus := ''ok'', mode := ''live''\<rparr>"
    by blast
  from t b have 2: "startup_fetch (Response True (Parsed (JObj [(''hotels'', JArr [])]))) initial_state
       = initial_state\<lparr>liveStatus := ''none''\<rparr>"
    by blast
  from t c have 3: "startup_fetch (Response True (Parsed (JObj [(''total_prices'', JNum 0)]))) initial_state
       = initial_state\<lparr>liveStatus := ''none''\<rparr>"
    by blast
  from t have 4: "startup_fetch (Response False Unparsable) initial_state
       = initial_state\<lparr>liveStatus := ''none''\<rparr>"
    and 5: "startup_fetch NoResponse initial_state = initial_state\<lparr>liveStatus := ''none''\<rparr>"
    by blast+
  show ?thesis
    using a b c d by (simp add: 1 2 3 4 5) (simp add: initial_state_def)
qed

end
